theory Spec2Isabelle
  imports Main "HOL-Library.AList"
begin

section \<open>The field service of ngfg, and the sheet manager's flattening helper\<close>

text \<open>
  The theory embeds \<^verbatim>\<open>app/services/field.py\<close> (class \<^verbatim>\<open>FieldService\<close>) and
  \<^verbatim>\<open>SheetManager.lists_to_list\<close> of \<^verbatim>\<open>app/helper/sheet_manager.py\<close>.

  The field service is written against collaborators that live in other modules of the
  application: the SQLAlchemy session and the \<^verbatim>\<open>Field\<close> model, the services of the
  auxiliary tables, the marshmallow schemas, the \<^verbatim>\<open>FieldType\<close> enumeration and the
  \<^verbatim>\<open>transaction_decorator\<close>. They are parameters of the model (record \<open>app\<close> below), so
  every theorem holds for whatever these collaborators answer; a small in-memory
  application instantiates them where a concrete run is evaluated.
\<close>

subsection \<open>Values, errors, JSON views\<close>

text \<open>
  The exceptions of \<^verbatim>\<open>app.helper.errors\<close> that the service raises, and the three Python
  run-time errors its code can run into: a missing dictionary key, an attribute read on
  \<^verbatim>\<open>None\<close>, and \<^verbatim>\<open>dict.update(None)\<close>.
\<close>

datatype error =
    FieldNotExist
  | ChoiceNotSend
  | SettingAutocompleteNotExist
  | FieldAlreadyExist
  | ChoiceOptionNotCreated
  | ChoiceOptionNotDeleted
  | FieldRangeNotDeleted
  | KeyError
  | AttributeError
  | TypeError

text \<open>What a schema dump holds: the JSON-shaped Python values.\<close>

datatype json =
    JNone
  | JBool bool
  | JInt int
  | JStr string
  | JList "json list"
  | JDict "(string \<times> json) list"

text \<open>
  A Python \<^verbatim>\<open>dict\<close> with string keys, in insertion order. \<open>map_of d k\<close> reads a key,
  \<open>AList.update k v d\<close> is \<^verbatim>\<open>d[k] = v\<close> (an existing key keeps its place).
\<close>

type_synonym dict = "(string \<times> json) list"

text \<open>\<^verbatim>\<open>data[key].append(item)\<close>: the key must be there and hold a list.\<close>

definition dict_list_append :: "dict \<Rightarrow> string \<Rightarrow> json \<Rightarrow> error + dict" where
  "dict_list_append data key item =
     (case map_of data key of
        None \<Rightarrow> Inl KeyError
      | Some (JList xs) \<Rightarrow> Inr (AList.update key (JList (xs @ [item])) data)
      | Some _ \<Rightarrow> Inl AttributeError)"

text \<open>\<^verbatim>\<open>data.update(other)\<close>; \<^verbatim>\<open>other\<close> may be \<^verbatim>\<open>None\<close>, which is not iterable.\<close>

definition dict_update :: "dict \<Rightarrow> dict option \<Rightarrow> error + dict" where
  "dict_update data other =
     (case other of
        None \<Rightarrow> Inl TypeError
      | Some d \<Rightarrow> Inr (fold (\<lambda>(k, v). AList.update k v) d data))"

text \<open>An optional bound as a JSON value, and \<^verbatim>\<open>{'min': range_min, 'max': range_max}\<close>.\<close>

definition json_of_bound :: "int option \<Rightarrow> json" where
  "json_of_bound b = (case b of None \<Rightarrow> JNone | Some n \<Rightarrow> JInt n)"

definition range_json :: "int option \<Rightarrow> int option \<Rightarrow> json" where
  "range_json range_min range_max =
     JDict [(''min'', json_of_bound range_min), (''max'', json_of_bound range_max)]"

text \<open>\<^verbatim>\<open>not xs\<close> for an optional list: \<^verbatim>\<open>None\<close> and \<^verbatim>\<open>[]\<close> are both falsy.\<close>

definition not_list :: "'a list option \<Rightarrow> bool" where
  "not_list xs = (case xs of None \<Rightarrow> True | Some ys \<Rightarrow> ys = [])"

subsection \<open>Model instances\<close>

record Field =
  Field_id :: int
  Field_name :: string
  Field_owner_id :: int
  Field_field_type :: int
  Field_is_strict :: bool

record RangeModel =
  Range_id :: int
  Range_min :: "int option"
  Range_max :: "int option"

record FieldRange =
  FieldRange_field_id :: int
  FieldRange_range_id :: int

record ChoiceOption =
  ChoiceOption_id :: int
  ChoiceOption_field_id :: int
  ChoiceOption_option_text :: string

record SettingAutocomplete =
  Setting_id :: int
  Setting_data_url :: string
  Setting_sheet :: string
  Setting_from_row :: string
  Setting_to_row :: string
  Setting_field_id :: int

datatype FieldType = Number | Text | TextArea | Radio | Checkbox | Autocomplete

subsection \<open>The collaborators\<close>

text \<open>
  Modelled from the spec: the stores of section 4.2 (\<^verbatim>\<open>RangeService\<close>,
  \<^verbatim>\<open>FieldRangeService\<close>, \<^verbatim>\<open>ChoiceOptionService\<close>, \<^verbatim>\<open>SettingAutocompleteService\<close>), whose
  modules are not part of the embedded sources. The spec gives their interface only:
  \<^verbatim>\<open>create\<close>, \<^verbatim>\<open>get_by_...\<close>, \<^verbatim>\<open>update\<close> answer the instance or \<^verbatim>\<open>None\<close>, \<^verbatim>\<open>delete\<close> answers a
  boolean or \<^verbatim>\<open>None\<close>, \<^verbatim>\<open>filter\<close> answers a list, and none of them raises. So each is
  a parameter of that type over an arbitrary store state \<open>'db\<close>: a write returns the new
  state, a read does not change it.

  The same record holds the other names the service imports: the session operations on
  \<^verbatim>\<open>Field\<close> rows (\<open>session_add_Field\<close> is \<^verbatim>\<open>Field(...)\<close>, \<^verbatim>\<open>DB.session.add\<close> and the
  flush of the unit of work, which answers no instance when the store refuses the row),
  the \<^verbatim>\<open>dump\<close> of each schema (applied to an instance or to \<^verbatim>\<open>None\<close>) and the values of
  the \<^verbatim>\<open>FieldType\<close> members.
\<close>

record 'db app =
  session_add_Field :: "string \<Rightarrow> int \<Rightarrow> int \<Rightarrow> bool \<Rightarrow> 'db \<Rightarrow> Field option \<times> 'db"
  Field_query_get :: "int \<Rightarrow> 'db \<Rightarrow> Field option"
  session_merge_Field :: "Field \<Rightarrow> 'db \<Rightarrow> 'db"
  RangeService_create :: "int option \<Rightarrow> int option \<Rightarrow> 'db \<Rightarrow> RangeModel option \<times> 'db"
  RangeService_get_by_id :: "int \<Rightarrow> 'db \<Rightarrow> RangeModel option"
  FieldRangeService_create :: "int \<Rightarrow> int \<Rightarrow> 'db \<Rightarrow> FieldRange option \<times> 'db"
  FieldRangeService_get_by_field_id :: "int \<Rightarrow> 'db \<Rightarrow> FieldRange option"
  FieldRangeService_update :: "int \<Rightarrow> int \<Rightarrow> 'db \<Rightarrow> FieldRange option \<times> 'db"
  FieldRangeService_delete :: "int \<Rightarrow> 'db \<Rightarrow> bool option \<times> 'db"
  ChoiceOptionService_create :: "int \<Rightarrow> string \<Rightarrow> 'db \<Rightarrow> ChoiceOption option \<times> 'db"
  ChoiceOptionService_filter :: "int \<Rightarrow> 'db \<Rightarrow> ChoiceOption list"
  ChoiceOptionService_get_by_field_and_text :: "int \<Rightarrow> string \<Rightarrow> 'db \<Rightarrow> ChoiceOption option"
  ChoiceOptionService_delete :: "int \<Rightarrow> 'db \<Rightarrow> bool option \<times> 'db"
  SettingAutocompleteService_create ::
    "string \<Rightarrow> string \<Rightarrow> string \<Rightarrow> string \<Rightarrow> int \<Rightarrow> 'db \<Rightarrow> SettingAutocomplete option \<times> 'db"
  SettingAutocompleteService_get_by_field_id :: "int \<Rightarrow> 'db \<Rightarrow> SettingAutocomplete option"
  BasicField_dump :: "Field option \<Rightarrow> dict"
  FieldNumberTextSchema_dump :: "Field option \<Rightarrow> dict"
  FieldRadioSchema_dump :: "Field option \<Rightarrow> dict"
  FieldCheckboxSchema_dump :: "Field option \<Rightarrow> dict"
  FieldSettingAutocompleteSchema_dump :: "Field option \<Rightarrow> dict"
  FieldType_value :: "FieldType \<Rightarrow> int"

text \<open>
  Modelled from the spec: \<^verbatim>\<open>transaction_decorator\<close> of \<^verbatim>\<open>app.helper.decorators\<close>, the
  unit-of-work wrapper of sections 4.1, 6 and 7: the wrapped call's writes are kept when
  it returns, and when it raises the unit of work is rolled back to the state at its
  entry and the error goes on to the caller.

  A wrapped call is a function from the store state to its outcome (\<open>Inl\<close> the error
  raised, \<open>Inr\<close> the value returned) and the state it leaves; on an error that is the
  state at the raise.
\<close>

definition transaction_decorator ::
  "('db \<Rightarrow> (error + 'a) \<times> 'db) \<Rightarrow> 'db \<Rightarrow> (error + 'a) \<times> 'db" where
  "transaction_decorator func db =
     (case func db of
        (Inl e, _) \<Rightarrow> (Inl e, db)
      | (Inr result, db') \<Rightarrow> (Inr result, db'))"

subsection \<open>The base operations of FieldService\<close>

text \<open>
  \<^verbatim>\<open>FieldService.create\<close>: the instance is built and added to the session inside the
  call's unit of work; callers test the answer against \<^verbatim>\<open>None\<close>.
\<close>

definition FieldService_create ::
  "'db app \<Rightarrow> string \<Rightarrow> int \<Rightarrow> int \<Rightarrow> bool \<Rightarrow> 'db \<Rightarrow> Field option \<times> 'db" where
  "FieldService_create app name owner_id field_type is_strict db =
     session_add_Field app name owner_id field_type is_strict db"

definition FieldService_get_by_id :: "'db app \<Rightarrow> int \<Rightarrow> 'db \<Rightarrow> Field option" where
  "FieldService_get_by_id app field_id db = Field_query_get app field_id db"

text \<open>\<^verbatim>\<open>FieldService.update\<close>: an argument that is \<^verbatim>\<open>None\<close> leaves its attribute alone.\<close>

definition FieldService_update_body ::
  "'db app \<Rightarrow> int \<Rightarrow> string option \<Rightarrow> int option \<Rightarrow> int option \<Rightarrow> bool option \<Rightarrow>
     'db \<Rightarrow> (error + Field) \<times> 'db" where
  "FieldService_update_body app field_id name owner_id field_type is_strict db =
     (case FieldService_get_by_id app field_id db of
        None \<Rightarrow> (Inl FieldNotExist, db)
      | Some instance0 \<Rightarrow>
          let instance1 = (case name of None \<Rightarrow> instance0
                           | Some v \<Rightarrow> instance0\<lparr>Field_name := v\<rparr>);
              instance2 = (case owner_id of None \<Rightarrow> instance1
                           | Some v \<Rightarrow> instance1\<lparr>Field_owner_id := v\<rparr>);
              instance3 = (case field_type of None \<Rightarrow> instance2
                           | Some v \<Rightarrow> instance2\<lparr>Field_field_type := v\<rparr>);
              instance4 = (case is_strict of None \<Rightarrow> instance3
                           | Some v \<Rightarrow> instance3\<lparr>Field_is_strict := v\<rparr>)
          in (Inr instance4, session_merge_Field app instance4 db))"

definition FieldService_update ::
  "'db app \<Rightarrow> int \<Rightarrow> string option \<Rightarrow> int option \<Rightarrow> int option \<Rightarrow> bool option \<Rightarrow>
     'db \<Rightarrow> (error + Field) \<times> 'db" where
  "FieldService_update app field_id name owner_id field_type is_strict =
     transaction_decorator
       (FieldService_update_body app field_id name owner_id field_type is_strict)"

subsection \<open>Creating fields\<close>

text \<open>
  Each \<^verbatim>\<open>create_...\<close> method is its body, a function of the store state, run inside
  \<^verbatim>\<open>transaction_decorator\<close>. \<^verbatim>\<open>x.id\<close> on an \<^verbatim>\<open>x\<close> that is \<^verbatim>\<open>None\<close> raises
  \<^verbatim>\<open>AttributeError\<close>; the arguments of a call are evaluated before the call.
\<close>

definition create_text_or_number_field_body ::
  "'db app \<Rightarrow> string \<Rightarrow> int \<Rightarrow> int \<Rightarrow> bool \<Rightarrow> int option \<Rightarrow> int option \<Rightarrow>
     'db \<Rightarrow> (error + dict) \<times> 'db" where
  "create_text_or_number_field_body app name owner_id field_type is_strict range_min range_max db =
     (case FieldService_create app name owner_id field_type is_strict db of
        (None, db1) \<Rightarrow> (Inl FieldAlreadyExist, db1)
      | (Some field, db1) \<Rightarrow>
          let data0 = FieldNumberTextSchema_dump app (Some field);
              data1 = (if is_strict then AList.update ''isStrict'' (JBool is_strict) data0
                       else data0)
          in if range_min \<noteq> None \<or> range_max \<noteq> None then
               (case RangeService_create app range_min range_max db1 of
                  (None, db2) \<Rightarrow> (Inl AttributeError, db2)
                | (Some range_instance, db2) \<Rightarrow>
                    (case FieldRangeService_create app
                            (Field_id field) (Range_id range_instance) db2 of
                       (_, db3) \<Rightarrow>
                         (Inr (AList.update ''range'' (range_json range_min range_max) data1),
                          db3)))
             else (Inr data1, db1))"

definition create_text_or_number_field ::
  "'db app \<Rightarrow> string \<Rightarrow> int \<Rightarrow> int \<Rightarrow> bool \<Rightarrow> int option \<Rightarrow> int option \<Rightarrow>
     'db \<Rightarrow> (error + dict) \<times> 'db" where
  "create_text_or_number_field app name owner_id field_type is_strict range_min range_max =
     transaction_decorator
       (create_text_or_number_field_body app name owner_id field_type is_strict
          range_min range_max)"

text \<open>\<^verbatim>\<open>create_text_area\<close> leaves \<^verbatim>\<open>is_strict\<close> at the default of \<^verbatim>\<open>FieldService.create\<close>.\<close>

definition create_text_area_body ::
  "'db app \<Rightarrow> string \<Rightarrow> int \<Rightarrow> int \<Rightarrow> 'db \<Rightarrow> (error + dict) \<times> 'db" where
  "create_text_area_body app name owner_id field_type db =
     (case FieldService_create app name owner_id field_type False db of
        (None, db1) \<Rightarrow> (Inl FieldAlreadyExist, db1)
      | (Some field, db1) \<Rightarrow> (Inr (BasicField_dump app (Some field)), db1))"

definition create_text_area ::
  "'db app \<Rightarrow> string \<Rightarrow> int \<Rightarrow> int \<Rightarrow> 'db \<Rightarrow> (error + dict) \<times> 'db" where
  "create_text_area app name owner_id field_type =
     transaction_decorator (create_text_area_body app name owner_id field_type)"

text \<open>
  The loop that ends \<^verbatim>\<open>create_radio_field\<close> and \<^verbatim>\<open>create_checkbox_field\<close>:
  \<^verbatim>\<open>for option in choice_options: data['choiceOptions'].append(option);
  ChoiceOptionService.create(field.id, option)\<close>. In \<^verbatim>\<open>create_checkbox_field\<close> the
  field has not been tested against \<^verbatim>\<open>None\<close>.
\<close>

fun create_choice_options_loop ::
  "'db app \<Rightarrow> Field option \<Rightarrow> string list \<Rightarrow> dict \<Rightarrow> 'db \<Rightarrow> (error + dict) \<times> 'db" where
  "create_choice_options_loop app field [] data db = (Inr data, db)"
| "create_choice_options_loop app field (option # rest) data db =
     (case dict_list_append data ''choiceOptions'' (JStr option) of
        Inl e \<Rightarrow> (Inl e, db)
      | Inr data' \<Rightarrow>
          (case field of
             None \<Rightarrow> (Inl AttributeError, db)
           | Some f \<Rightarrow>
               (case ChoiceOptionService_create app (Field_id f) option db of
                  (_, db') \<Rightarrow> create_choice_options_loop app field rest data' db')))"

definition create_radio_field_body ::
  "'db app \<Rightarrow> string \<Rightarrow> int \<Rightarrow> int \<Rightarrow> string list option \<Rightarrow> bool \<Rightarrow>
     'db \<Rightarrow> (error + dict) \<times> 'db" where
  "create_radio_field_body app name owner_id field_type choice_options is_strict db =
     (if not_list choice_options then (Inl ChoiceNotSend, db)
      else
        (case FieldService_create app name owner_id field_type is_strict db of
           (None, db1) \<Rightarrow> (Inl FieldAlreadyExist, db1)
         | (Some field, db1) \<Rightarrow>
             let data0 = FieldRadioSchema_dump app (Some field);
                 data1 = AList.update ''choiceOptions'' (JList []) data0
             in create_choice_options_loop app (Some field)
                  (case choice_options of None \<Rightarrow> [] | Some options \<Rightarrow> options) data1 db1))"

definition create_radio_field ::
  "'db app \<Rightarrow> string \<Rightarrow> int \<Rightarrow> int \<Rightarrow> string list option \<Rightarrow> bool \<Rightarrow>
     'db \<Rightarrow> (error + dict) \<times> 'db" where
  "create_radio_field app name owner_id field_type choice_options is_strict =
     transaction_decorator
       (create_radio_field_body app name owner_id field_type choice_options is_strict)"

definition create_checkbox_field_body ::
  "'db app \<Rightarrow> string \<Rightarrow> int \<Rightarrow> int \<Rightarrow> string list option \<Rightarrow> bool \<Rightarrow>
     int option \<Rightarrow> int option \<Rightarrow> 'db \<Rightarrow> (error + dict) \<times> 'db" where
  "create_checkbox_field_body app name owner_id field_type choice_options is_strict
     range_min range_max db =
     (if not_list choice_options then (Inl ChoiceNotSend, db)
      else
        (case FieldService_create app name owner_id field_type is_strict db of
           (field, db1) \<Rightarrow>
             let data0 = FieldRadioSchema_dump app field;
                 options = (case choice_options of None \<Rightarrow> [] | Some options \<Rightarrow> options)
             in if range_min \<noteq> None \<or> range_max \<noteq> None then
                  (case RangeService_create app range_min range_max db1 of
                     (range_instance, db2) \<Rightarrow>
                       (case field of
                          None \<Rightarrow> (Inl AttributeError, db2)
                        | Some f \<Rightarrow>
                            (case range_instance of
                               None \<Rightarrow> (Inl AttributeError, db2)
                             | Some r \<Rightarrow>
                                 (case FieldRangeService_create app
                                         (Field_id f) (Range_id r) db2 of
                                    (_, db3) \<Rightarrow>
                                      create_choice_options_loop app field options
                                        (AList.update ''range''
                                           (range_json range_min range_max) data0)
                                        db3))))
                else create_choice_options_loop app field options data0 db1))"

definition create_checkbox_field ::
  "'db app \<Rightarrow> string \<Rightarrow> int \<Rightarrow> int \<Rightarrow> string list option \<Rightarrow> bool \<Rightarrow>
     int option \<Rightarrow> int option \<Rightarrow> 'db \<Rightarrow> (error + dict) \<times> 'db" where
  "create_checkbox_field app name owner_id field_type choice_options is_strict
     range_min range_max =
     transaction_decorator
       (create_checkbox_field_body app name owner_id field_type choice_options is_strict
          range_min range_max)"

definition create_autocomplete_field_body ::
  "'db app \<Rightarrow> string \<Rightarrow> int \<Rightarrow> int \<Rightarrow> string \<Rightarrow> string \<Rightarrow> string \<Rightarrow> string \<Rightarrow> bool \<Rightarrow>
     'db \<Rightarrow> (error + dict) \<times> 'db" where
  "create_autocomplete_field_body app name owner_id field_type data_url sheet from_row to_row
     is_strict db =
     (case FieldService_create app name owner_id field_type is_strict db of
        (None, db1) \<Rightarrow> (Inl FieldNotExist, db1)
      | (Some field, db1) \<Rightarrow>
          let data = FieldSettingAutocompleteSchema_dump app (Some field)
          in (case SettingAutocompleteService_create app
                     data_url sheet from_row to_row (Field_id field) db1 of
                (None, db2) \<Rightarrow> (Inl SettingAutocompleteNotExist, db2)
              | (Some settings, db2) \<Rightarrow>
                  (Inr (AList.update ''settingAutocomplete''
                          (JDict [(''dataUrl'', JStr (Setting_data_url settings)),
                                  (''sheet'', JStr (Setting_sheet settings)),
                                  (''fromRow'', JStr (Setting_from_row settings)),
                                  (''toRow'', JStr (Setting_to_row settings))])
                          data),
                   db2)))"

definition create_autocomplete_field ::
  "'db app \<Rightarrow> string \<Rightarrow> int \<Rightarrow> int \<Rightarrow> string \<Rightarrow> string \<Rightarrow> string \<Rightarrow> string \<Rightarrow> bool \<Rightarrow>
     'db \<Rightarrow> (error + dict) \<times> 'db" where
  "create_autocomplete_field app name owner_id field_type data_url sheet from_row to_row
     is_strict =
     transaction_decorator
       (create_autocomplete_field_body app name owner_id field_type data_url sheet
          from_row to_row is_strict)"

subsection \<open>Recomputing the additional options\<close>

text \<open>
  The three helpers read the stores; \<^verbatim>\<open>if range_field:\<close> and \<^verbatim>\<open>if field_range:\<close> test an
  instance against \<^verbatim>\<open>None\<close>, \<^verbatim>\<open>if choice_options:\<close> tests a list against the empty one.
\<close>

definition range_additional_option :: "'db app \<Rightarrow> int \<Rightarrow> dict \<Rightarrow> 'db \<Rightarrow> dict" where
  "range_additional_option app field_id data db =
     (case FieldRangeService_get_by_field_id app field_id db of
        None \<Rightarrow> data
      | Some range_field \<Rightarrow>
          (case RangeService_get_by_id app (FieldRange_range_id range_field) db of
             None \<Rightarrow> data
           | Some field_range \<Rightarrow>
               AList.update ''range''
                 (range_json (Range_min field_range) (Range_max field_range)) data))"

definition get_text_or_number_additional_options ::
  "'db app \<Rightarrow> int \<Rightarrow> 'db \<Rightarrow> error + dict" where
  "get_text_or_number_additional_options app field_id db =
     (case FieldService_get_by_id app field_id db of
        None \<Rightarrow> Inl AttributeError
      | Some field \<Rightarrow>
          let data = (if Field_is_strict field then AList.update ''isStrict'' (JBool True) []
                      else [])
          in Inr (range_additional_option app field_id data db))"

definition get_choice_additional_options ::
  "'db app \<Rightarrow> int \<Rightarrow> 'db \<Rightarrow> error + dict" where
  "get_choice_additional_options app field_id db =
     (let choice_options = ChoiceOptionService_filter app field_id db
      in if choice_options \<noteq> [] then
           Inr (range_additional_option app field_id
                  (AList.update ''choiceOptions''
                     (JList (map (\<lambda>option. JStr (ChoiceOption_option_text option))
                               choice_options)) [])
                  db)
         else Inl FieldNotExist)"

definition get_autocomplete_additional_options ::
  "'db app \<Rightarrow> int \<Rightarrow> 'db \<Rightarrow> error + dict" where
  "get_autocomplete_additional_options app field_id db =
     (case SettingAutocompleteService_get_by_field_id app field_id db of
        None \<Rightarrow> Inl SettingAutocompleteNotExist
      | Some settings_autocomplete \<Rightarrow>
          Inr (AList.update ''settingAutocomplete''
                 (JDict [(''dataUrl'', JStr (Setting_data_url settings_autocomplete)),
                         (''sheet'', JStr (Setting_sheet settings_autocomplete)),
                         (''fromRow'', JStr (Setting_from_row settings_autocomplete)),
                         (''toRow'', JStr (Setting_to_row settings_autocomplete))])
                 []))"

text \<open>
  The \<^verbatim>\<open>try\<close> block of \<^verbatim>\<open>get_additional_options\<close>: what it assigns to \<^verbatim>\<open>data\<close>, which
  starts as \<^verbatim>\<open>None\<close>, or the error raised inside it.
\<close>

definition get_additional_options_try ::
  "'db app \<Rightarrow> int \<Rightarrow> int \<Rightarrow> 'db \<Rightarrow> error + dict option" where
  "get_additional_options_try app field_id field_type db =
     (if field_type = FieldType_value app Number \<or> field_type = FieldType_value app Text then
        map_sum id Some (get_text_or_number_additional_options app field_id db)
      else if field_type = FieldType_value app TextArea then
        Inr (Some [])
      else if field_type = FieldType_value app Radio
              \<or> field_type = FieldType_value app Checkbox then
        map_sum id Some (get_choice_additional_options app field_id db)
      else if field_type = FieldType_value app Autocomplete then
        map_sum id Some (get_autocomplete_additional_options app field_id db)
      else Inr None)"

text \<open>\<^verbatim>\<open>except FieldNotExist\<close>: the error is logged and \<^verbatim>\<open>data\<close>, still \<^verbatim>\<open>None\<close>, is returned.\<close>

definition get_additional_options ::
  "'db app \<Rightarrow> int \<Rightarrow> int \<Rightarrow> 'db \<Rightarrow> error + dict option" where
  "get_additional_options app field_id field_type db =
     (case get_additional_options_try app field_id field_type db of
        Inl FieldNotExist \<Rightarrow> Inr None
      | Inl e \<Rightarrow> Inl e
      | Inr data \<Rightarrow> Inr data)"

subsection \<open>Updating fields\<close>

text \<open>
  The range branch that \<^verbatim>\<open>update_text_or_number_field\<close> and \<^verbatim>\<open>update_checkbox_field\<close>
  share, statement for statement: \<^verbatim>\<open>if delete_range: ... else: ...\<close>, with the updated
  field and the link \<^verbatim>\<open>field_range\<close> read before it.
\<close>

definition update_range_branch ::
  "'db app \<Rightarrow> Field \<Rightarrow> FieldRange option \<Rightarrow> int option \<Rightarrow> int option \<Rightarrow> bool \<Rightarrow>
     'db \<Rightarrow> (error + unit) \<times> 'db" where
  "update_range_branch app field field_range range_min range_max delete_range db =
     (if delete_range then
        (case field_range of
           None \<Rightarrow> (Inl FieldRangeNotDeleted, db)
         | Some _ \<Rightarrow>
             (case FieldRangeService_delete app (Field_id field) db of
                (None, db1) \<Rightarrow> (Inl FieldRangeNotDeleted, db1)
              | (Some _, db1) \<Rightarrow> (Inr (), db1)))
      else if range_min \<noteq> None \<or> range_max \<noteq> None then
        (case RangeService_create app range_min range_max db of
           (None, db1) \<Rightarrow> (Inl AttributeError, db1)
         | (Some range_instance, db1) \<Rightarrow>
             (case field_range of
                Some _ \<Rightarrow>
                  (case FieldRangeService_update app
                          (Field_id field) (Range_id range_instance) db1 of
                     (_, db2) \<Rightarrow> (Inr (), db2))
              | None \<Rightarrow>
                  (case FieldRangeService_create app
                          (Field_id field) (Range_id range_instance) db1 of
                     (_, db2) \<Rightarrow> (Inr (), db2))))
      else (Inr (), db))"

text \<open>
  The last statement of every update:
  \<^verbatim>\<open>data.update(FieldService.get_additional_options(field.id, field.field_type))\<close>.
\<close>

definition merge_additional_options ::
  "'db app \<Rightarrow> Field \<Rightarrow> dict \<Rightarrow> 'db \<Rightarrow> (error + dict) \<times> 'db" where
  "merge_additional_options app field data db =
     (case get_additional_options app (Field_id field) (Field_field_type field) db of
        Inl e \<Rightarrow> (Inl e, db)
      | Inr additional \<Rightarrow>
          (case dict_update data additional of
             Inl e \<Rightarrow> (Inl e, db)
           | Inr data' \<Rightarrow> (Inr data', db)))"

definition update_text_or_number_field_body ::
  "'db app \<Rightarrow> int \<Rightarrow> string option \<Rightarrow> int option \<Rightarrow> int option \<Rightarrow> bool \<Rightarrow> bool option \<Rightarrow>
     'db \<Rightarrow> (error + dict) \<times> 'db" where
  "update_text_or_number_field_body app field_id name range_min range_max delete_range
     is_strict db =
     (case FieldService_update app field_id name None None is_strict db of
        (Inl e, db1) \<Rightarrow> (Inl e, db1)
      | (Inr field, db1) \<Rightarrow>
          let data = FieldNumberTextSchema_dump app (Some field);
              field_range = FieldRangeService_get_by_field_id app field_id db1
          in (case update_range_branch app field field_range range_min range_max
                     delete_range db1 of
                (Inl e, db2) \<Rightarrow> (Inl e, db2)
              | (Inr _, db2) \<Rightarrow> merge_additional_options app field data db2))"

definition update_text_or_number_field ::
  "'db app \<Rightarrow> int \<Rightarrow> string option \<Rightarrow> int option \<Rightarrow> int option \<Rightarrow> bool \<Rightarrow> bool option \<Rightarrow>
     'db \<Rightarrow> (error + dict) \<times> 'db" where
  "update_text_or_number_field app field_id name range_min range_max delete_range is_strict =
     transaction_decorator
       (update_text_or_number_field_body app field_id name range_min range_max delete_range
          is_strict)"

text \<open>
  The two loops over the option deltas, the same in \<^verbatim>\<open>update_radio_field\<close> and
  \<^verbatim>\<open>update_checkbox_field\<close>. The looked-up option is not tested against \<^verbatim>\<open>None\<close>
  before its \<^verbatim>\<open>id\<close> is read.
\<close>

fun added_choice_options_loop ::
  "'db app \<Rightarrow> Field \<Rightarrow> string list \<Rightarrow> 'db \<Rightarrow> (error + unit) \<times> 'db" where
  "added_choice_options_loop app field [] db = (Inr (), db)"
| "added_choice_options_loop app field (added_option # rest) db =
     (case ChoiceOptionService_create app (Field_id field) added_option db of
        (None, db1) \<Rightarrow> (Inl ChoiceOptionNotCreated, db1)
      | (Some _, db1) \<Rightarrow> added_choice_options_loop app field rest db1)"

fun removed_choice_options_loop ::
  "'db app \<Rightarrow> Field \<Rightarrow> string list \<Rightarrow> 'db \<Rightarrow> (error + unit) \<times> 'db" where
  "removed_choice_options_loop app field [] db = (Inr (), db)"
| "removed_choice_options_loop app field (removed_option # rest) db =
     (case ChoiceOptionService_get_by_field_and_text app (Field_id field) removed_option db of
        None \<Rightarrow> (Inl AttributeError, db)
      | Some choice_option \<Rightarrow>
          (case ChoiceOptionService_delete app (ChoiceOption_id choice_option) db of
             (None, db1) \<Rightarrow> (Inl ChoiceOptionNotDeleted, db1)
           | (Some _, db1) \<Rightarrow> removed_choice_options_loop app field rest db1))"

text \<open>
  \<^verbatim>\<open>if added_choice_options: ...\<close> then \<^verbatim>\<open>if removed_choice_options: ...\<close>: an absent or
  empty list skips its loop.
\<close>

definition update_choice_options ::
  "'db app \<Rightarrow> Field \<Rightarrow> string list option \<Rightarrow> string list option \<Rightarrow>
     'db \<Rightarrow> (error + unit) \<times> 'db" where
  "update_choice_options app field added_choice_options removed_choice_options db =
     (case added_choice_options_loop app field
             (case added_choice_options of None \<Rightarrow> [] | Some options \<Rightarrow> options) db of
        (Inl e, db1) \<Rightarrow> (Inl e, db1)
      | (Inr _, db1) \<Rightarrow>
          removed_choice_options_loop app field
            (case removed_choice_options of None \<Rightarrow> [] | Some options \<Rightarrow> options) db1)"

definition update_radio_field_body ::
  "'db app \<Rightarrow> int \<Rightarrow> string option \<Rightarrow> string list option \<Rightarrow> string list option \<Rightarrow>
     'db \<Rightarrow> (error + dict) \<times> 'db" where
  "update_radio_field_body app field_id name added_choice_options removed_choice_options db =
     (case FieldService_update app field_id name None None None db of
        (Inl e, db1) \<Rightarrow> (Inl e, db1)
      | (Inr field, db1) \<Rightarrow>
          let data = FieldRadioSchema_dump app (Some field)
          in (case update_choice_options app field added_choice_options
                     removed_choice_options db1 of
                (Inl e, db2) \<Rightarrow> (Inl e, db2)
              | (Inr _, db2) \<Rightarrow> merge_additional_options app field data db2))"

definition update_radio_field ::
  "'db app \<Rightarrow> int \<Rightarrow> string option \<Rightarrow> string list option \<Rightarrow> string list option \<Rightarrow>
     'db \<Rightarrow> (error + dict) \<times> 'db" where
  "update_radio_field app field_id name added_choice_options removed_choice_options =
     transaction_decorator
       (update_radio_field_body app field_id name added_choice_options removed_choice_options)"

text \<open>
  \<^verbatim>\<open>update_checkbox_field\<close> takes \<^verbatim>\<open>range_max\<close> before \<^verbatim>\<open>range_min\<close>, and reads the link
  by \<^verbatim>\<open>field.id\<close>.
\<close>

definition update_checkbox_field_body ::
  "'db app \<Rightarrow> int \<Rightarrow> string option \<Rightarrow> int option \<Rightarrow> int option \<Rightarrow> bool \<Rightarrow>
     string list option \<Rightarrow> string list option \<Rightarrow> 'db \<Rightarrow> (error + dict) \<times> 'db" where
  "update_checkbox_field_body app field_id name range_max range_min delete_range
     added_choice_options removed_choice_options db =
     (case FieldService_update app field_id name None None None db of
        (Inl e, db1) \<Rightarrow> (Inl e, db1)
      | (Inr field, db1) \<Rightarrow>
          let data = FieldCheckboxSchema_dump app (Some field);
              field_range = FieldRangeService_get_by_field_id app (Field_id field) db1
          in (case update_range_branch app field field_range range_min range_max
                     delete_range db1 of
                (Inl e, db2) \<Rightarrow> (Inl e, db2)
              | (Inr _, db2) \<Rightarrow>
                  (case update_choice_options app field added_choice_options
                          removed_choice_options db2 of
                     (Inl e, db3) \<Rightarrow> (Inl e, db3)
                   | (Inr _, db3) \<Rightarrow> merge_additional_options app field data db3)))"

definition update_checkbox_field ::
  "'db app \<Rightarrow> int \<Rightarrow> string option \<Rightarrow> int option \<Rightarrow> int option \<Rightarrow> bool \<Rightarrow>
     string list option \<Rightarrow> string list option \<Rightarrow> 'db \<Rightarrow> (error + dict) \<times> 'db" where
  "update_checkbox_field app field_id name range_max range_min delete_range
     added_choice_options removed_choice_options =
     transaction_decorator
       (update_checkbox_field_body app field_id name range_max range_min delete_range
          added_choice_options removed_choice_options)"

subsection \<open>SheetManager.lists_to_list\<close>

text \<open>
  The rows read from a sheet: an item is a list or anything else
  (\<^verbatim>\<open>isinstance(item, list)\<close>).
\<close>

datatype 'a pyitem = Item 'a | PyList "'a pyitem list"

text \<open>
  The \<^verbatim>\<open>for\<close> loop of \<^verbatim>\<open>lists_to_list\<close> over \<^verbatim>\<open>data\<close>, with the list \<^verbatim>\<open>values\<close> it appends
  to. The recursive call \<^verbatim>\<open>SheetManager.lists_to_list(item, values)\<close> passes that same
  list object, which is not \<^verbatim>\<open>None\<close>, so it runs the loop over \<^verbatim>\<open>item\<close> on it; its
  return value is dropped, and the caller goes on with the list as the call left it.
\<close>

fun lists_to_list_loop :: "'a pyitem list \<Rightarrow> 'a list \<Rightarrow> 'a list" where
  "lists_to_list_loop [] values = values"
| "lists_to_list_loop (PyList item # data) values =
     lists_to_list_loop data (lists_to_list_loop item values)"
| "lists_to_list_loop (Item item # data) values =
     lists_to_list_loop data (values @ [item])"

definition lists_to_list :: "'a pyitem list \<Rightarrow> 'a list option \<Rightarrow> 'a list" where
  "lists_to_list data values =
     lists_to_list_loop data (case values of None \<Rightarrow> [] | Some vs \<Rightarrow> vs)"

text \<open>
  The reference the helper is compared with, following the spec's words ("a simple
  depth-first flatten of nested sequences into one flat sequence"): an item that is not a
  list is itself, a list is the concatenation of the flattenings of its items, left to
  right.
\<close>

fun flatten_reference :: "'a pyitem \<Rightarrow> 'a list" where
  "flatten_reference (Item x) = [x]"
| "flatten_reference (PyList xs) = concat (map flatten_reference xs)"

subsection \<open>An in-memory application\<close>

text \<open>
  A concrete instance of the collaborators, on which runs are evaluated: the tables are
  lists of rows, ids come from one counter, a second field of the same owner and name is
  refused, \<^verbatim>\<open>update\<close> and \<^verbatim>\<open>delete\<close> answer \<^verbatim>\<open>None\<close> when the row is not there. The
  dumps give the columns of the field row (nothing for \<^verbatim>\<open>None\<close>).
\<close>

record mem_db =
  field_table :: "Field list"
  range_table :: "RangeModel list"
  field_range_table :: "FieldRange list"
  choice_option_table :: "ChoiceOption list"
  setting_table :: "SettingAutocomplete list"
  next_id :: int

definition base_view :: "Field option \<Rightarrow> dict" where
  "base_view field =
     (case field of
        None \<Rightarrow> []
      | Some f \<Rightarrow> [(''id'', JInt (Field_id f)), (''name'', JStr (Field_name f)),
                   (''ownerId'', JInt (Field_owner_id f)),
                   (''fieldType'', JInt (Field_field_type f))])"

definition mem_add_Field ::
  "string \<Rightarrow> int \<Rightarrow> int \<Rightarrow> bool \<Rightarrow> mem_db \<Rightarrow> Field option \<times> mem_db" where
  "mem_add_Field name owner_id field_type is_strict db =
     (case List.find (\<lambda>f. Field_name f = name \<and> Field_owner_id f = owner_id) (field_table db) of
        Some _ \<Rightarrow> (None, db)
      | None \<Rightarrow>
          let f = \<lparr>Field_id = next_id db, Field_name = name, Field_owner_id = owner_id,
                   Field_field_type = field_type, Field_is_strict = is_strict\<rparr>
          in (Some f, db\<lparr>field_table := field_table db @ [f], next_id := next_id db + 1\<rparr>))"

definition mem_range_create ::
  "int option \<Rightarrow> int option \<Rightarrow> mem_db \<Rightarrow> RangeModel option \<times> mem_db" where
  "mem_range_create range_min range_max db =
     (let r = \<lparr>Range_id = next_id db, Range_min = range_min, Range_max = range_max\<rparr>
      in (Some r, db\<lparr>range_table := range_table db @ [r], next_id := next_id db + 1\<rparr>))"

definition mem_field_range_create ::
  "int \<Rightarrow> int \<Rightarrow> mem_db \<Rightarrow> FieldRange option \<times> mem_db" where
  "mem_field_range_create field_id range_id db =
     (let l = \<lparr>FieldRange_field_id = field_id, FieldRange_range_id = range_id\<rparr>
      in (Some l, db\<lparr>field_range_table := field_range_table db @ [l]\<rparr>))"

definition mem_field_range_get :: "int \<Rightarrow> mem_db \<Rightarrow> FieldRange option" where
  "mem_field_range_get field_id db =
     List.find (\<lambda>l. FieldRange_field_id l = field_id) (field_range_table db)"

definition mem_field_range_update ::
  "int \<Rightarrow> int \<Rightarrow> mem_db \<Rightarrow> FieldRange option \<times> mem_db" where
  "mem_field_range_update field_id range_id db =
     (case mem_field_range_get field_id db of
        None \<Rightarrow> (None, db)
      | Some l \<Rightarrow>
          (Some (l\<lparr>FieldRange_range_id := range_id\<rparr>),
           db\<lparr>field_range_table :=
                 map (\<lambda>k. if FieldRange_field_id k = field_id
                           then k\<lparr>FieldRange_range_id := range_id\<rparr> else k)
                   (field_range_table db)\<rparr>))"

definition mem_field_range_delete :: "int \<Rightarrow> mem_db \<Rightarrow> bool option \<times> mem_db" where
  "mem_field_range_delete field_id db =
     (case mem_field_range_get field_id db of
        None \<Rightarrow> (None, db)
      | Some _ \<Rightarrow>
          (Some True,
           db\<lparr>field_range_table :=
                 filter (\<lambda>k. FieldRange_field_id k \<noteq> field_id) (field_range_table db)\<rparr>))"

definition mem_choice_option_create ::
  "int \<Rightarrow> string \<Rightarrow> mem_db \<Rightarrow> ChoiceOption option \<times> mem_db" where
  "mem_choice_option_create field_id option_text db =
     (let c = \<lparr>ChoiceOption_id = next_id db, ChoiceOption_field_id = field_id,
               ChoiceOption_option_text = option_text\<rparr>
      in (Some c, db\<lparr>choice_option_table := choice_option_table db @ [c], next_id := next_id db + 1\<rparr>))"

definition mem_choice_option_delete :: "int \<Rightarrow> mem_db \<Rightarrow> bool option \<times> mem_db" where
  "mem_choice_option_delete option_id db =
     (case List.find (\<lambda>c. ChoiceOption_id c = option_id) (choice_option_table db) of
        None \<Rightarrow> (None, db)
      | Some _ \<Rightarrow>
          (Some True,
           db\<lparr>choice_option_table :=
                 filter (\<lambda>c. ChoiceOption_id c \<noteq> option_id) (choice_option_table db)\<rparr>))"

definition mem_setting_create ::
  "string \<Rightarrow> string \<Rightarrow> string \<Rightarrow> string \<Rightarrow> int \<Rightarrow> mem_db \<Rightarrow>
     SettingAutocomplete option \<times> mem_db" where
  "mem_setting_create data_url sheet from_row to_row field_id db =
     (let s = \<lparr>Setting_id = next_id db, Setting_data_url = data_url, Setting_sheet = sheet,
               Setting_from_row = from_row, Setting_to_row = to_row,
               Setting_field_id = field_id\<rparr>
      in (Some s, db\<lparr>setting_table := setting_table db @ [s], next_id := next_id db + 1\<rparr>))"

fun mem_FieldType_value :: "FieldType \<Rightarrow> int" where
  "mem_FieldType_value Number = 1"
| "mem_FieldType_value Text = 2"
| "mem_FieldType_value TextArea = 3"
| "mem_FieldType_value Radio = 4"
| "mem_FieldType_value Autocomplete = 5"
| "mem_FieldType_value Checkbox = 6"

definition mem_app :: "mem_db app" where
  "mem_app =
     \<lparr>session_add_Field = mem_add_Field,
      Field_query_get = (\<lambda>field_id db. List.find (\<lambda>f. Field_id f = field_id) (field_table db)),
      session_merge_Field =
        (\<lambda>instance db.
           db\<lparr>field_table := map (\<lambda>f. if Field_id f = Field_id instance then instance else f)
                            (field_table db)\<rparr>),
      RangeService_create = mem_range_create,
      RangeService_get_by_id = (\<lambda>range_id db. List.find (\<lambda>r. Range_id r = range_id) (range_table db)),
      FieldRangeService_create = mem_field_range_create,
      FieldRangeService_get_by_field_id = mem_field_range_get,
      FieldRangeService_update = mem_field_range_update,
      FieldRangeService_delete = mem_field_range_delete,
      ChoiceOptionService_create = mem_choice_option_create,
      ChoiceOptionService_filter =
        (\<lambda>field_id db. filter (\<lambda>c. ChoiceOption_field_id c = field_id) (choice_option_table db)),
      ChoiceOptionService_get_by_field_and_text =
        (\<lambda>field_id option_text db.
           List.find (\<lambda>c. ChoiceOption_field_id c = field_id
                          \<and> ChoiceOption_option_text c = option_text) (choice_option_table db)),
      ChoiceOptionService_delete = mem_choice_option_delete,
      SettingAutocompleteService_create = mem_setting_create,
      SettingAutocompleteService_get_by_field_id =
        (\<lambda>field_id db. List.find (\<lambda>s. Setting_field_id s = field_id) (setting_table db)),
      BasicField_dump = base_view,
      FieldNumberTextSchema_dump = base_view,
      FieldRadioSchema_dump = base_view,
      FieldCheckboxSchema_dump = base_view,
      FieldSettingAutocompleteSchema_dump = base_view,
      FieldType_value = mem_FieldType_value\<rparr>"

text \<open>The empty store, and stores with one field of owner 1 in them.\<close>

definition empty_db :: mem_db where
  "empty_db = \<lparr>field_table = [], range_table = [], field_range_table = [], choice_option_table = [],
               setting_table = [], next_id = 1\<rparr>"

definition field_row :: "int \<Rightarrow> string \<Rightarrow> int \<Rightarrow> Field" where
  "field_row field_id name field_type =
     \<lparr>Field_id = field_id, Field_name = name, Field_owner_id = 1,
      Field_field_type = field_type, Field_is_strict = False\<rparr>"

definition one_field_db :: "string \<Rightarrow> int \<Rightarrow> mem_db" where
  "one_field_db name field_type = empty_db\<lparr>field_table := [field_row 1 name field_type], next_id := 2\<rparr>"

text \<open>
  A number field with a range attached, and a checkbox field with a range and one
  option.
\<close>

definition ranged_db :: mem_db where
  "ranged_db =
     (one_field_db ''age'' 1)
       \<lparr>range_table := [\<lparr>Range_id = 2, Range_min = Some 0, Range_max = Some 120\<rparr>],
        field_range_table := [\<lparr>FieldRange_field_id = 1, FieldRange_range_id = 2\<rparr>],
        next_id := 3\<rparr>"

definition checkbox_db :: mem_db where
  "checkbox_db =
     (one_field_db ''pick'' 6)
       \<lparr>range_table := [\<lparr>Range_id = 2, Range_min = Some 1, Range_max = Some 1\<rparr>],
        field_range_table := [\<lparr>FieldRange_field_id = 1, FieldRange_range_id = 2\<rparr>],
        choice_option_table :=
          [\<lparr>ChoiceOption_id = 3, ChoiceOption_field_id = 1, ChoiceOption_option_text = ''a''\<rparr>],
        next_id := 4\<rparr>"

section \<open>Properties\<close>

subsection \<open>The unit of work\<close>

lemma transaction_decorator_Inl:
  "func db = (Inl e, db') \<Longrightarrow> transaction_decorator func db = (Inl e, db)"
  by (simp add: transaction_decorator_def)

lemma transaction_decorator_Inr:
  "func db = (Inr r, db') \<Longrightarrow> transaction_decorator func db = (Inr r, db')"
  by (simp add: transaction_decorator_def)

lemma fst_transaction_decorator: "fst (transaction_decorator func db) = fst (func db)"
  by (auto simp: transaction_decorator_def split: prod.splits sum.splits)

subsection \<open>Base creation that yields no instance\<close>

lemma dict_list_append_Inl:
  "dict_list_append data key item = Inl e \<Longrightarrow> e = KeyError \<or> e = AttributeError"
  by (auto simp: dict_list_append_def split: option.splits json.splits)

lemma create_choice_options_loop_no_field:
  "fst (create_choice_options_loop app None (option # rest) data db)
     \<in> {Inl KeyError, Inl AttributeError}"
  by (auto dest: dict_list_append_Inl split: sum.splits)

lemma not_list_Cons:
  "\<not> not_list choice_options \<Longrightarrow> \<exists>option rest. choice_options = Some (option # rest)"
  by (cases choice_options) (auto simp: not_list_def neq_Nil_conv)

lemma create_text_or_number_field_body_none:
  "FieldService_create app name owner_id field_type is_strict db = (None, db1) \<Longrightarrow>
   create_text_or_number_field_body app name owner_id field_type is_strict range_min range_max db
     = (Inl FieldAlreadyExist, db1)"
  by (simp add: create_text_or_number_field_body_def)

lemma create_text_area_body_none:
  "FieldService_create app name owner_id field_type False db = (None, db1) \<Longrightarrow>
   create_text_area_body app name owner_id field_type db = (Inl FieldAlreadyExist, db1)"
  by (simp add: create_text_area_body_def)

lemma create_radio_field_body_none:
  "\<not> not_list choice_options \<Longrightarrow>
   FieldService_create app name owner_id field_type is_strict db = (None, db1) \<Longrightarrow>
   create_radio_field_body app name owner_id field_type choice_options is_strict db
     = (Inl FieldAlreadyExist, db1)"
  by (simp add: create_radio_field_body_def)

lemma create_autocomplete_field_body_none:
  "FieldService_create app name owner_id field_type is_strict db = (None, db1) \<Longrightarrow>
   create_autocomplete_field_body app name owner_id field_type data_url sheet from_row to_row
     is_strict db = (Inl FieldNotExist, db1)"
  by (simp add: create_autocomplete_field_body_def)

lemma create_checkbox_field_body_none:
  assumes "\<not> not_list choice_options"
    and "FieldService_create app name owner_id field_type is_strict db = (None, db1)"
  shows "fst (create_checkbox_field_body app name owner_id field_type choice_options is_strict
            range_min range_max db) \<in> {Inl KeyError, Inl AttributeError}"
proof -
  from assms(1) obtain option rest where co: "choice_options = Some (option # rest)"
    using not_list_Cons by blast
  show ?thesis
  proof (cases "range_min \<noteq> None \<or> range_max \<noteq> None")
    case True
    then show ?thesis
      using assms by (auto simp: create_checkbox_field_body_def split: prod.splits)
  next
    case False
    then show ?thesis
      using assms co create_choice_options_loop_no_field [of app option rest]
      by (simp add: create_checkbox_field_body_def del: create_choice_options_loop.simps)
  qed
qed

text \<open>
  C1. When the base creation yields no instance, \<^verbatim>\<open>create_text_or_number_field\<close>,
  \<^verbatim>\<open>create_text_area\<close> and \<^verbatim>\<open>create_radio_field\<close> (given options) fail with
  \<^verbatim>\<open>FieldAlreadyExist\<close>. The other two variants do not: \<^verbatim>\<open>create_autocomplete_field\<close>
  fails with \<^verbatim>\<open>FieldNotExist\<close>, and \<^verbatim>\<open>create_checkbox_field\<close> (given options) has no
  test at all and runs into \<^verbatim>\<open>KeyError\<close> or \<^verbatim>\<open>AttributeError\<close> on the missing
  instance. Every one of them leaves the store as it was.
\<close>

theorem create_when_base_creation_yields_none:
  assumes "FieldService_create app name owner_id field_type is_strict db = (None, db1)"
  shows "create_text_or_number_field app name owner_id field_type is_strict range_min range_max db
           = (Inl FieldAlreadyExist, db)
       \<and> (\<not> is_strict \<longrightarrow>
            create_text_area app name owner_id field_type db = (Inl FieldAlreadyExist, db))
       \<and> (\<not> not_list choice_options \<longrightarrow>
            create_radio_field app name owner_id field_type choice_options is_strict db
              = (Inl FieldAlreadyExist, db))
       \<and> create_autocomplete_field app name owner_id field_type data_url sheet from_row to_row
            is_strict db = (Inl FieldNotExist, db)
       \<and> (\<not> not_list choice_options \<longrightarrow>
            fst (create_checkbox_field app name owner_id field_type choice_options is_strict
                   range_min range_max db) \<in> {Inl KeyError, Inl AttributeError}
            \<and> snd (create_checkbox_field app name owner_id field_type choice_options is_strict
                   range_min range_max db) = db)"
proof (intro conjI impI)
  show "create_text_or_number_field app name owner_id field_type is_strict range_min range_max db
           = (Inl FieldAlreadyExist, db)"
    unfolding create_text_or_number_field_def
    by (rule transaction_decorator_Inl) (rule create_text_or_number_field_body_none [OF assms])
  show "create_autocomplete_field app name owner_id field_type data_url sheet from_row to_row
           is_strict db = (Inl FieldNotExist, db)"
    unfolding create_autocomplete_field_def
    by (rule transaction_decorator_Inl) (rule create_autocomplete_field_body_none [OF assms])
next
  assume "\<not> is_strict"
  with assms show "create_text_area app name owner_id field_type db = (Inl FieldAlreadyExist, db)"
    unfolding create_text_area_def
    by (intro transaction_decorator_Inl create_text_area_body_none) simp
next
  assume co: "\<not> not_list choice_options"
  show "create_radio_field app name owner_id field_type choice_options is_strict db
          = (Inl FieldAlreadyExist, db)"
    unfolding create_radio_field_def
    by (rule transaction_decorator_Inl) (rule create_radio_field_body_none [OF co assms])
  let ?body = "create_checkbox_field_body app name owner_id field_type choice_options is_strict
                 range_min range_max"
  have b: "fst (?body db) \<in> {Inl KeyError, Inl AttributeError}"
    by (rule create_checkbox_field_body_none [OF co assms])
  then show "fst (create_checkbox_field app name owner_id field_type choice_options is_strict
                range_min range_max db) \<in> {Inl KeyError, Inl AttributeError}"
    by (simp add: create_checkbox_field_def fst_transaction_decorator)
  from b show "snd (create_checkbox_field app name owner_id field_type choice_options is_strict
                range_min range_max db) = db"
    by (cases "?body db") (auto simp: create_checkbox_field_def transaction_decorator_def)
qed

lemma mem_create_duplicate:
  "FieldService_create mem_app name 1 field_type is_strict (one_field_db name field_type)
     = (None, one_field_db name field_type)"
  by (simp add: FieldService_create_def mem_app_def mem_add_Field_def one_field_db_def
        empty_db_def field_row_def)

theorem create_when_base_creation_yields_none_witness:
  "create_text_or_number_field mem_app ''pick'' 1 6 False None None (one_field_db ''pick'' 6)
     = (Inl FieldAlreadyExist, one_field_db ''pick'' 6)
   \<and> create_radio_field mem_app ''pick'' 1 6 (Some [''a'']) False (one_field_db ''pick'' 6)
     = (Inl FieldAlreadyExist, one_field_db ''pick'' 6)
   \<and> create_autocomplete_field mem_app ''pick'' 1 6 ''u'' ''Sheet1'' ''A1'' ''C5'' False
       (one_field_db ''pick'' 6)
     = (Inl FieldNotExist, one_field_db ''pick'' 6)
   \<and> fst (create_checkbox_field mem_app ''pick'' 1 6 (Some [''a'']) False None None
            (one_field_db ''pick'' 6)) \<in> {Inl KeyError, Inl AttributeError}"
  using create_when_base_creation_yields_none
    [OF mem_create_duplicate, where name = "''pick''" and field_type = 6 and is_strict = False
       and range_min = None and range_max = None and choice_options = "Some [''a'']"
       and data_url = "''u''" and sheet = "''Sheet1''" and from_row = "''A1''"
       and to_row = "''C5''"]
  by (simp add: not_list_def)

subsection \<open>Creation without choice options\<close>

text \<open>
  C2. \<^verbatim>\<open>create_radio_field\<close> and \<^verbatim>\<open>create_checkbox_field\<close>, called with an empty or
  absent \<^verbatim>\<open>choice_options\<close>, raise \<^verbatim>\<open>ChoiceNotSend\<close> before any write: the body itself
  raises in the store state it was entered with, whatever the collaborators are, so no
  \<^verbatim>\<open>Field\<close> row and no auxiliary row has been created.
\<close>

theorem create_without_choice_options:
  assumes "not_list choice_options"
  shows "create_radio_field_body app name owner_id field_type choice_options is_strict db
           = (Inl ChoiceNotSend, db)
       \<and> create_radio_field app name owner_id field_type choice_options is_strict db
           = (Inl ChoiceNotSend, db)
       \<and> create_checkbox_field_body app name owner_id field_type choice_options is_strict
            range_min range_max db = (Inl ChoiceNotSend, db)
       \<and> create_checkbox_field app name owner_id field_type choice_options is_strict
            range_min range_max db = (Inl ChoiceNotSend, db)"
  using assms
  by (simp add: create_radio_field_def create_radio_field_body_def create_checkbox_field_def
        create_checkbox_field_body_def transaction_decorator_def)

theorem create_without_choice_options_witness:
  "create_radio_field mem_app ''x'' 1 4 (Some []) False empty_db = (Inl ChoiceNotSend, empty_db)
   \<and> create_checkbox_field mem_app ''x'' 1 6 None False (Some 1) None empty_db
       = (Inl ChoiceNotSend, empty_db)
   \<and> field_table empty_db = [] \<and> choice_option_table empty_db = []"
  using create_without_choice_options [of "Some []" mem_app "''x''" 1 4 False empty_db]
    create_without_choice_options [of None mem_app "''x''" 1 6 False empty_db "Some 1" None]
  by (simp add: not_list_def empty_db_def)

subsection \<open>The choice options of a created field\<close>

lemma create_choice_options_loop_appends:
  "map_of data ''choiceOptions'' = Some (JList xs) \<Longrightarrow>
   \<exists>data' db'. create_choice_options_loop app (Some f) options data db = (Inr data', db')
     \<and> map_of data' = (map_of data)(''choiceOptions'' \<mapsto> JList (xs @ map JStr options))"
proof (induction options arbitrary: data db xs)
  case Nil
  then show ?case by (simp add: map_upd_triv)
next
  case (Cons option rest)
  let ?data = "AList.update ''choiceOptions'' (JList (xs @ [JStr option])) data"
  have a: "dict_list_append data ''choiceOptions'' (JStr option) = Inr ?data"
    using Cons.prems by (simp add: dict_list_append_def)
  obtain c db1 where c: "ChoiceOptionService_create app (Field_id f) option db = (c, db1)"
    by (cases "ChoiceOptionService_create app (Field_id f) option db")
  have "map_of ?data ''choiceOptions'' = Some (JList (xs @ [JStr option]))"
    by (simp add: update_conv')
  from Cons.IH [OF this, of db1] obtain data' db' where
    loop: "create_choice_options_loop app (Some f) rest ?data db1 = (Inr data', db')" and
    m: "map_of data' = (map_of ?data)(''choiceOptions'' \<mapsto>
                          JList ((xs @ [JStr option]) @ map JStr rest))"
    by blast
  have "map_of data' = (map_of data)(''choiceOptions'' \<mapsto>
                          JList (xs @ map JStr (option # rest)))"
    unfolding m update_conv' by simp
  moreover have "create_choice_options_loop app (Some f) (option # rest) data db = (Inr data', db')"
    by (simp add: a c loop)
  ultimately show ?case by blast
qed

lemma create_radio_field_body_ok:
  assumes "options \<noteq> []"
    and "FieldService_create app name owner_id field_type is_strict db = (Some field, db1)"
  shows "\<exists>data db'. create_radio_field_body app name owner_id field_type (Some options) is_strict db
            = (Inr data, db')
         \<and> map_of data = (map_of (FieldRadioSchema_dump app (Some field)))
                            (''choiceOptions'' \<mapsto> JList (map JStr options))"
proof -
  let ?data = "AList.update ''choiceOptions'' (JList []) (FieldRadioSchema_dump app (Some field))"
  have "map_of ?data ''choiceOptions'' = Some (JList [])" by (simp add: update_conv')
  from create_choice_options_loop_appends [OF this, of app "field" options db1]
  show ?thesis using assms
    by (simp add: create_radio_field_body_def not_list_def update_conv')
qed

lemma create_choice_options_loop_no_key:
  "map_of data ''choiceOptions'' = None \<Longrightarrow>
   create_choice_options_loop app field (option # rest) data db = (Inl KeyError, db)"
  by (simp add: dict_list_append_def)

lemma create_checkbox_field_body_ok:
  assumes "options \<noteq> []"
    and "FieldService_create app name owner_id field_type is_strict db = (Some field, db_new)"
    and "map_of (FieldRadioSchema_dump app (Some field)) ''choiceOptions'' = Some (JList xs)"
    and "range_min \<noteq> None \<or> range_max \<noteq> None \<longrightarrow>
           fst (RangeService_create app range_min range_max db_new) \<noteq> None"
  shows "\<exists>data db'. create_checkbox_field_body app name owner_id field_type (Some options)
              is_strict range_min range_max db = (Inr data, db')
         \<and> map_of data ''choiceOptions'' = Some (JList (xs @ map JStr options))
         \<and> map_of data ''range'' =
             (if range_min \<noteq> None \<or> range_max \<noteq> None
              then Some (range_json range_min range_max)
              else map_of (FieldRadioSchema_dump app (Some field)) ''range'')"
proof (cases "range_min \<noteq> None \<or> range_max \<noteq> None")
  case False
  from create_choice_options_loop_appends [OF assms(3), of app "field" options db_new]
  show ?thesis using assms(1,2) False
    by (auto simp: create_checkbox_field_body_def not_list_def)
next
  case True
  with assms(4) obtain r db_r where
    r: "RangeService_create app range_min range_max db_new = (Some r, db_r)"
    by (cases "RangeService_create app range_min range_max db_new") auto
  obtain l db_l where
    l: "FieldRangeService_create app (Field_id field) (Range_id r) db_r = (l, db_l)"
    by (cases "FieldRangeService_create app (Field_id field) (Range_id r) db_r")
  let ?data = "AList.update ''range'' (range_json range_min range_max)
                 (FieldRadioSchema_dump app (Some field))"
  have "map_of ?data ''choiceOptions'' = Some (JList xs)"
    using assms(3) by (simp add: update_conv')
  from create_choice_options_loop_appends [OF this, of app "field" options db_l]
  show ?thesis using assms(1,2) True r l
    by (auto simp: create_checkbox_field_body_def not_list_def update_conv')
qed

lemma create_checkbox_field_body_no_key:
  assumes "options \<noteq> []"
    and "FieldService_create app name owner_id field_type is_strict db = (Some field, db_new)"
    and "map_of (FieldRadioSchema_dump app (Some field)) ''choiceOptions'' = None"
    and "range_min \<noteq> None \<or> range_max \<noteq> None \<longrightarrow>
           fst (RangeService_create app range_min range_max db_new) \<noteq> None"
  shows "fst (create_checkbox_field_body app name owner_id field_type (Some options)
                is_strict range_min range_max db) = Inl KeyError"
proof -
  from assms(1) obtain option rest where o: "options = option # rest"
    by (cases options) auto
  show ?thesis
  proof (cases "range_min \<noteq> None \<or> range_max \<noteq> None")
    case False
    then show ?thesis
      using assms(2)
        create_choice_options_loop_no_key [OF assms(3), of app "Some field" option rest db_new]
      by (simp add: create_checkbox_field_body_def not_list_def o
            del: create_choice_options_loop.simps)
  next
    case True
    with assms(4) obtain r db_r where
      r: "RangeService_create app range_min range_max db_new = (Some r, db_r)"
      by (cases "RangeService_create app range_min range_max db_new") auto
    obtain l db_l where
      l: "FieldRangeService_create app (Field_id field) (Range_id r) db_r = (l, db_l)"
      by (cases "FieldRangeService_create app (Field_id field) (Range_id r) db_r")
    let ?data = "AList.update ''range'' (range_json range_min range_max)
                   (FieldRadioSchema_dump app (Some field))"
    have "map_of ?data ''choiceOptions'' = None"
      using assms(3) by (simp add: update_conv')
    from create_choice_options_loop_no_key [OF this, of app "Some field" option rest db_l]
    show ?thesis using assms(2) True r l
      by (simp add: create_checkbox_field_body_def not_list_def o
            del: create_choice_options_loop.simps)
  qed
qed

text \<open>
  C6. For a non-empty list of options and a base creation that yields an instance,
  \<^verbatim>\<open>create_radio_field\<close> sets \<open>choiceOptions\<close> to the empty list and appends: the mapping
  it returns holds the input list, in input order, and no \<open>range\<close> key but the dumped
  view's. \<^verbatim>\<open>create_checkbox_field\<close> appends without setting the key first. When the dump
  of the new field has no \<open>choiceOptions\<close> key the call raises \<^verbatim>\<open>KeyError\<close> at the
  first option and returns no mapping (the store is rolled back); when the dump holds a
  list there, the returned list is that list followed by the input.
\<close>

theorem create_choice_options_of_result:
  assumes "options \<noteq> []"
    and "FieldService_create app name owner_id field_type is_strict db = (Some field, db_new)"
  shows "(\<exists>data db'. create_radio_field app name owner_id field_type (Some options) is_strict db
              = (Inr data, db')
           \<and> map_of data ''choiceOptions'' = Some (JList (map JStr options))
           \<and> map_of data ''range'' = map_of (FieldRadioSchema_dump app (Some field)) ''range'')
       \<and> ((range_min \<noteq> None \<or> range_max \<noteq> None \<longrightarrow>
              fst (RangeService_create app range_min range_max db_new) \<noteq> None) \<longrightarrow>
           (map_of (FieldRadioSchema_dump app (Some field)) ''choiceOptions'' = None \<longrightarrow>
              create_checkbox_field app name owner_id field_type (Some options) is_strict
                range_min range_max db = (Inl KeyError, db))
           \<and> (\<forall>xs. map_of (FieldRadioSchema_dump app (Some field)) ''choiceOptions''
                      = Some (JList xs) \<longrightarrow>
                (\<exists>data db'. create_checkbox_field app name owner_id field_type (Some options)
                     is_strict range_min range_max db = (Inr data, db')
                  \<and> map_of data ''choiceOptions'' = Some (JList (xs @ map JStr options))
                  \<and> map_of data ''range'' =
                      (if range_min \<noteq> None \<or> range_max \<noteq> None
                       then Some (range_json range_min range_max)
                       else map_of (FieldRadioSchema_dump app (Some field)) ''range''))))"
proof (intro conjI impI allI)
  from create_radio_field_body_ok [OF assms]
  obtain data db' where
    "create_radio_field_body app name owner_id field_type (Some options) is_strict db
       = (Inr data, db')"
    "map_of data = (map_of (FieldRadioSchema_dump app (Some field)))
                            (''choiceOptions'' \<mapsto> JList (map JStr options))"
    by blast
  then show "\<exists>data db'. create_radio_field app name owner_id field_type (Some options) is_strict db
              = (Inr data, db')
           \<and> map_of data ''choiceOptions'' = Some (JList (map JStr options))
           \<and> map_of data ''range'' = map_of (FieldRadioSchema_dump app (Some field)) ''range''"
    by (simp add: create_radio_field_def transaction_decorator_def)
next
  assume r: "range_min \<noteq> None \<or> range_max \<noteq> None \<longrightarrow>
              fst (RangeService_create app range_min range_max db_new) \<noteq> None"
    and k: "map_of (FieldRadioSchema_dump app (Some field)) ''choiceOptions'' = None"
  let ?body = "create_checkbox_field_body app name owner_id field_type (Some options)
                 is_strict range_min range_max"
  have "fst (?body db) = Inl KeyError"
    by (rule create_checkbox_field_body_no_key [OF assms k r])
  then show "create_checkbox_field app name owner_id field_type (Some options) is_strict
                range_min range_max db = (Inl KeyError, db)"
    by (cases "?body db") (simp add: create_checkbox_field_def transaction_decorator_def)
next
  fix xs
  assume r: "range_min \<noteq> None \<or> range_max \<noteq> None \<longrightarrow>
              fst (RangeService_create app range_min range_max db_new) \<noteq> None"
    and k: "map_of (FieldRadioSchema_dump app (Some field)) ''choiceOptions'' = Some (JList xs)"
  from create_checkbox_field_body_ok [OF assms k r]
  obtain data db' where
    "create_checkbox_field_body app name owner_id field_type (Some options)
              is_strict range_min range_max db = (Inr data, db')"
    "map_of data ''choiceOptions'' = Some (JList (xs @ map JStr options))"
    "map_of data ''range'' =
             (if range_min \<noteq> None \<or> range_max \<noteq> None
              then Some (range_json range_min range_max)
              else map_of (FieldRadioSchema_dump app (Some field)) ''range'')"
    by blast
  then show "\<exists>data db'. create_checkbox_field app name owner_id field_type (Some options)
                     is_strict range_min range_max db = (Inr data, db')
                  \<and> map_of data ''choiceOptions'' = Some (JList (xs @ map JStr options))
                  \<and> map_of data ''range'' =
                      (if range_min \<noteq> None \<or> range_max \<noteq> None
                       then Some (range_json range_min range_max)
                       else map_of (FieldRadioSchema_dump app (Some field)) ''range'')"
    by (simp add: create_checkbox_field_def transaction_decorator_def)
qed

lemma mem_create_fresh:
  "FieldService_create mem_app name 1 field_type False empty_db
     = (Some (field_row 1 name field_type), one_field_db name field_type)"
  by (simp add: FieldService_create_def mem_app_def mem_add_Field_def one_field_db_def
        empty_db_def field_row_def Let_def)

lemma mem_range_create_some:
  "fst (RangeService_create mem_app range_min range_max db) \<noteq> None"
  by (simp add: mem_app_def mem_range_create_def Let_def)

lemma mem_radio_dump_no_choice_options:
  "map_of (FieldRadioSchema_dump mem_app (Some (field_row field_id name field_type)))
     ''choiceOptions'' = None"
  by (simp add: mem_app_def base_view_def)

theorem create_choice_options_of_result_witness:
  "(\<exists>data db'. create_radio_field mem_app ''color'' 1 4 (Some [''red'', ''green'', ''blue''])
                  False empty_db = (Inr data, db')
      \<and> map_of data ''choiceOptions'' = Some (JList [JStr ''red'', JStr ''green'', JStr ''blue''])
      \<and> map_of data ''range'' = None)
   \<and> create_checkbox_field mem_app ''pick'' 1 6 (Some [''a'', ''b'']) False None None empty_db
       = (Inl KeyError, empty_db)
   \<and> create_checkbox_field mem_app ''pick'' 1 6 (Some [''a'', ''b'']) False (Some 1) (Some 2)
       empty_db = (Inl KeyError, empty_db)"
  using create_choice_options_of_result
    [where app = mem_app and options = "[''red'', ''green'', ''blue'']" and name = "''color''"
       and owner_id = 1 and field_type = 4 and is_strict = False and db = empty_db
       and field = "field_row 1 ''color'' 4" and db_new = "one_field_db ''color'' 4"
       and range_min = None and range_max = None]
    create_choice_options_of_result
    [where app = mem_app and options = "[''a'', ''b'']" and name = "''pick''"
       and owner_id = 1 and field_type = 6 and is_strict = False and db = empty_db
       and field = "field_row 1 ''pick'' 6" and db_new = "one_field_db ''pick'' 6"
       and range_min = None and range_max = None]
    create_choice_options_of_result
    [where app = mem_app and options = "[''a'', ''b'']" and name = "''pick''"
       and owner_id = 1 and field_type = 6 and is_strict = False and db = empty_db
       and field = "field_row 1 ''pick'' 6" and db_new = "one_field_db ''pick'' 6"
       and range_min = "Some 1" and range_max = "Some 2"]
  by (simp add: mem_create_fresh mem_range_create_some mem_radio_dump_no_choice_options)
     (simp add: mem_app_def base_view_def field_row_def)

subsection \<open>The range branch of the updates\<close>

lemma update_range_branch_no_link:
  "update_range_branch app field None range_min range_max True db
     = (Inl FieldRangeNotDeleted, db)"
  by (simp add: update_range_branch_def)

lemma update_range_branch_skip:
  "update_range_branch app field field_range None None False db = (Inr (), db)"
  by (simp add: update_range_branch_def)

text \<open>
  C3. \<^verbatim>\<open>update_text_or_number_field\<close> with \<^verbatim>\<open>delete_range\<close> true, on a field that
  \<^verbatim>\<open>FieldService.update\<close> finds and that has no Field-Range link, raises
  \<^verbatim>\<open>FieldRangeNotDeleted\<close>. The body raises in the state the base update left (name and
  \<^verbatim>\<open>is_strict\<close> already written); the unit of work around it rolls that back, so the call
  leaves the store as it was. The same holds for the range branch of
  \<^verbatim>\<open>update_checkbox_field\<close>.
\<close>

theorem delete_range_without_link:
  "(FieldService_update app field_id name None None is_strict db = (Inr field, db_upd)
      \<and> FieldRangeService_get_by_field_id app field_id db_upd = None \<longrightarrow>
    update_text_or_number_field_body app field_id name range_min range_max True is_strict db
      = (Inl FieldRangeNotDeleted, db_upd)
    \<and> update_text_or_number_field app field_id name range_min range_max True is_strict db
      = (Inl FieldRangeNotDeleted, db))
 \<and> (FieldService_update app field_id name None None None db = (Inr field', db_upd')
      \<and> FieldRangeService_get_by_field_id app (Field_id field') db_upd' = None \<longrightarrow>
    update_checkbox_field_body app field_id name range_max range_min True
        added_choice_options removed_choice_options db
      = (Inl FieldRangeNotDeleted, db_upd')
    \<and> update_checkbox_field app field_id name range_max range_min True
        added_choice_options removed_choice_options db
      = (Inl FieldRangeNotDeleted, db))"
  by (simp add: update_text_or_number_field_def update_text_or_number_field_body_def
        update_checkbox_field_def update_checkbox_field_body_def
        update_range_branch_no_link transaction_decorator_def)

lemma mem_update_name:
  "FieldService_update mem_app 1 (Some new_name) None None None (one_field_db name field_type)
     = (Inr (field_row 1 new_name field_type), one_field_db new_name field_type)"
  by (simp add: FieldService_update_def FieldService_update_body_def FieldService_get_by_id_def
        transaction_decorator_def mem_app_def one_field_db_def empty_db_def field_row_def
        Let_def)

lemma mem_no_link:
  "FieldRangeService_get_by_field_id mem_app field_id (one_field_db name field_type) = None"
  by (simp add: mem_app_def mem_field_range_get_def one_field_db_def empty_db_def)

theorem delete_range_without_link_witness:
  "update_text_or_number_field_body mem_app 1 (Some ''new'') None None True None
       (one_field_db ''old'' 2)
     = (Inl FieldRangeNotDeleted, one_field_db ''new'' 2)
   \<and> update_text_or_number_field mem_app 1 (Some ''new'') None None True None
       (one_field_db ''old'' 2)
     = (Inl FieldRangeNotDeleted, one_field_db ''old'' 2)
   \<and> update_checkbox_field mem_app 1 (Some ''new'') None None True None None
       (one_field_db ''old'' 6)
     = (Inl FieldRangeNotDeleted, one_field_db ''old'' 6)"
  using delete_range_without_link
    [where app = mem_app and field_id = 1 and name = "Some ''new''" and is_strict = None
       and db = "one_field_db ''old'' 2" and field = "field_row 1 ''new'' 2"
       and db_upd = "one_field_db ''new'' 2" and range_min = None and range_max = None
       and field' = "field_row 1 ''new'' 2" and db_upd' = "one_field_db ''new'' 2"
       and added_choice_options = None and removed_choice_options = None]
    delete_range_without_link
    [where app = mem_app and field_id = 1 and name = "Some ''new''" and is_strict = None
       and db = "one_field_db ''old'' 6" and field = "field_row 1 ''new'' 6"
       and db_upd = "one_field_db ''new'' 6" and range_min = None and range_max = None
       and field' = "field_row 1 ''new'' 6" and db_upd' = "one_field_db ''new'' 6"
       and added_choice_options = None and removed_choice_options = None]
  by (simp add: mem_update_name mem_no_link field_row_def)

subsection \<open>Updates without bounds\<close>

text \<open>
  What a call leaves alone is stated for an observation \<open>obs\<close> of the store state, such
  as its Range rows and Field-Range links: if the writes the call does perform keep the
  observation, so does the call.
\<close>

lemma FieldService_update_frame:
  assumes "\<forall>instance d. obs (session_merge_Field app instance d) = obs d"
  shows "obs (snd (FieldService_update app field_id name owner_id field_type is_strict db)) = obs db"
  using assms
  by (simp add: FieldService_update_def FieldService_update_body_def transaction_decorator_def
        Let_def split: option.splits)

lemma merge_additional_options_state: "snd (merge_additional_options app field data db) = db"
  by (simp add: merge_additional_options_def split: sum.splits)

lemma added_choice_options_loop_frame:
  assumes "\<forall>fid t d. obs (snd (ChoiceOptionService_create app fid t d)) = obs d"
  shows "obs (snd (added_choice_options_loop app field options db)) = obs db"
proof (induction options arbitrary: db)
  case Nil
  show ?case by simp
next
  case (Cons added_option rest)
  obtain c d where c: "ChoiceOptionService_create app (Field_id field) added_option db = (c, d)"
    by (cases "ChoiceOptionService_create app (Field_id field) added_option db")
  have "obs d = obs db"
    using assms [rule_format, of "Field_id field" added_option db] by (simp add: c)
  then show ?case
    using Cons.IH [of d] by (cases c) (simp_all add: c)
qed

lemma removed_choice_options_loop_frame:
  assumes "\<forall>oid d. obs (snd (ChoiceOptionService_delete app oid d)) = obs d"
  shows "obs (snd (removed_choice_options_loop app field options db)) = obs db"
proof (induction options arbitrary: db)
  case Nil
  show ?case by simp
next
  case (Cons removed_option rest)
  show ?case
  proof (cases "ChoiceOptionService_get_by_field_and_text app (Field_id field) removed_option db")
    case None
    then show ?thesis by simp
  next
    case (Some choice_option)
    obtain r d where r: "ChoiceOptionService_delete app (ChoiceOption_id choice_option) db = (r, d)"
      by (cases "ChoiceOptionService_delete app (ChoiceOption_id choice_option) db")
    have "obs d = obs db"
      using assms [rule_format, of "ChoiceOption_id choice_option" db] by (simp add: r)
    then show ?thesis
      using Cons.IH [of d] by (cases r) (simp_all add: Some r)
  qed
qed

lemma update_choice_options_frame:
  assumes "\<forall>fid t d. obs (snd (ChoiceOptionService_create app fid t d)) = obs d"
    and "\<forall>oid d. obs (snd (ChoiceOptionService_delete app oid d)) = obs d"
  shows "obs (snd (update_choice_options app field added_choice_options removed_choice_options db))
           = obs db"
proof -
  let ?added = "case added_choice_options of None \<Rightarrow> [] | Some options \<Rightarrow> options"
  obtain r d where a: "added_choice_options_loop app field ?added db = (r, d)"
    by (cases "added_choice_options_loop app field ?added db")
  have "obs d = obs db"
    using added_choice_options_loop_frame [OF assms(1), of field ?added db] by (simp add: a)
  then show ?thesis
    using removed_choice_options_loop_frame [OF assms(2), of field _ d]
    by (cases r) (simp_all add: update_choice_options_def a)
qed

lemma transaction_decorator_frame:
  "(\<And>r d. func db = (r, d) \<Longrightarrow> obs d = obs db) \<Longrightarrow>
   obs (snd (transaction_decorator func db)) = obs db"
  by (cases "func db") (auto simp: transaction_decorator_def split: sum.splits)

lemma update_text_or_number_field_frame:
  assumes "\<forall>instance d. obs (session_merge_Field app instance d) = obs d"
  shows "obs (snd (update_text_or_number_field app field_id name None None False is_strict db))
           = obs db"
  unfolding update_text_or_number_field_def
proof (rule transaction_decorator_frame)
  fix r d
  assume b: "update_text_or_number_field_body app field_id name None None False is_strict db = (r, d)"
  obtain u du where u: "FieldService_update app field_id name None None is_strict db = (u, du)"
    by (cases "FieldService_update app field_id name None None is_strict db")
  have du: "obs du = obs db"
    using FieldService_update_frame [OF assms, of field_id name None None is_strict db]
    by (simp add: u)
  show "obs d = obs db"
  proof (cases u)
    case (Inl e)
    with b u du show ?thesis by (simp add: update_text_or_number_field_body_def)
  next
    case (Inr field)
    with b u have "d = snd (merge_additional_options app field
                              (FieldNumberTextSchema_dump app (Some field)) du)"
      by (simp add: update_text_or_number_field_body_def update_range_branch_skip)
    then show ?thesis by (simp add: merge_additional_options_state du)
  qed
qed

lemma update_checkbox_field_frame:
  assumes "\<forall>instance d. obs (session_merge_Field app instance d) = obs d"
    and "\<forall>fid t d. obs (snd (ChoiceOptionService_create app fid t d)) = obs d"
    and "\<forall>oid d. obs (snd (ChoiceOptionService_delete app oid d)) = obs d"
  shows "obs (snd (update_checkbox_field app field_id name None None False
                     added_choice_options removed_choice_options db)) = obs db"
  unfolding update_checkbox_field_def
proof (rule transaction_decorator_frame)
  fix r d
  assume b: "update_checkbox_field_body app field_id name None None False
               added_choice_options removed_choice_options db = (r, d)"
  obtain u du where u: "FieldService_update app field_id name None None None db = (u, du)"
    by (cases "FieldService_update app field_id name None None None db")
  have du: "obs du = obs db"
    using FieldService_update_frame [OF assms(1), of field_id name None None None db]
    by (simp add: u)
  show "obs d = obs db"
  proof (cases u)
    case (Inl e)
    with b u du show ?thesis by (simp add: update_checkbox_field_body_def)
  next
    case (Inr field)
    obtain c dc where c: "update_choice_options app field added_choice_options
                            removed_choice_options du = (c, dc)"
      by (cases "update_choice_options app field added_choice_options removed_choice_options du")
    have dc: "obs dc = obs du"
      using update_choice_options_frame [OF assms(2,3), of field added_choice_options
              removed_choice_options du]
      by (simp add: c)
    show ?thesis
    proof (cases c)
      case (Inl e)
      with b u Inr c dc du show ?thesis
        by (simp add: update_checkbox_field_body_def update_range_branch_skip)
    next
      case Inr': (Inr x)
      with b u Inr c have "d = snd (merge_additional_options app field
                              (FieldCheckboxSchema_dump app (Some field)) dc)"
        by (simp add: update_checkbox_field_body_def update_range_branch_skip)
      then show ?thesis by (simp add: merge_additional_options_state dc du)
    qed
  qed
qed

text \<open>
  What a call does not use is stated by exchanging it: the call answers the same, and
  leaves the same state, when the four writes of Range rows and Field-Range links are
  replaced by any others.
\<close>

lemma range_writes_range_additional_option:
  "range_additional_option
     (app\<lparr>RangeService_create := rc, FieldRangeService_create := lc,
          FieldRangeService_update := lu, FieldRangeService_delete := ld\<rparr>)
     field_id data db
   = range_additional_option app field_id data db"
  by (simp add: range_additional_option_def split: option.splits)

lemma range_writes_get_text_or_number_additional_options:
  "get_text_or_number_additional_options
     (app\<lparr>RangeService_create := rc, FieldRangeService_create := lc,
          FieldRangeService_update := lu, FieldRangeService_delete := ld\<rparr>)
     field_id db
   = get_text_or_number_additional_options app field_id db"
  by (simp add: get_text_or_number_additional_options_def FieldService_get_by_id_def
        range_writes_range_additional_option Let_def split: option.splits)

lemma range_writes_get_choice_additional_options:
  "get_choice_additional_options
     (app\<lparr>RangeService_create := rc, FieldRangeService_create := lc,
          FieldRangeService_update := lu, FieldRangeService_delete := ld\<rparr>)
     field_id db
   = get_choice_additional_options app field_id db"
  by (simp add: get_choice_additional_options_def range_writes_range_additional_option Let_def)

lemma range_writes_get_autocomplete_additional_options:
  "get_autocomplete_additional_options
     (app\<lparr>RangeService_create := rc, FieldRangeService_create := lc,
          FieldRangeService_update := lu, FieldRangeService_delete := ld\<rparr>)
     field_id db
   = get_autocomplete_additional_options app field_id db"
  by (simp add: get_autocomplete_additional_options_def)

lemma range_writes_get_additional_options_try:
  "get_additional_options_try
     (app\<lparr>RangeService_create := rc, FieldRangeService_create := lc,
          FieldRangeService_update := lu, FieldRangeService_delete := ld\<rparr>)
     field_id field_type db
   = get_additional_options_try app field_id field_type db"
  by (simp add: get_additional_options_try_def
        range_writes_get_text_or_number_additional_options
        range_writes_get_choice_additional_options
        range_writes_get_autocomplete_additional_options)

lemma range_writes_get_additional_options:
  "get_additional_options
     (app\<lparr>RangeService_create := rc, FieldRangeService_create := lc,
          FieldRangeService_update := lu, FieldRangeService_delete := ld\<rparr>)
     field_id field_type db
   = get_additional_options app field_id field_type db"
  by (simp add: get_additional_options_def range_writes_get_additional_options_try)

lemma range_writes_merge_additional_options:
  "merge_additional_options
     (app\<lparr>RangeService_create := rc, FieldRangeService_create := lc,
          FieldRangeService_update := lu, FieldRangeService_delete := ld\<rparr>)
     field data db
   = merge_additional_options app field data db"
  by (simp add: merge_additional_options_def range_writes_get_additional_options)

lemma range_writes_FieldService_update:
  "FieldService_update
     (app\<lparr>RangeService_create := rc, FieldRangeService_create := lc,
          FieldRangeService_update := lu, FieldRangeService_delete := ld\<rparr>)
     field_id name owner_id field_type is_strict db
   = FieldService_update app field_id name owner_id field_type is_strict db"
  by (simp add: FieldService_update_def FieldService_update_body_def FieldService_get_by_id_def
        transaction_decorator_def Let_def cong: option.case_cong)

lemma range_writes_added_choice_options_loop:
  "added_choice_options_loop
     (app\<lparr>RangeService_create := rc, FieldRangeService_create := lc,
          FieldRangeService_update := lu, FieldRangeService_delete := ld\<rparr>)
     field options db
   = added_choice_options_loop app field options db"
  by (induction options arbitrary: db) (simp_all split: prod.splits option.splits)

lemma range_writes_removed_choice_options_loop:
  "removed_choice_options_loop
     (app\<lparr>RangeService_create := rc, FieldRangeService_create := lc,
          FieldRangeService_update := lu, FieldRangeService_delete := ld\<rparr>)
     field options db
   = removed_choice_options_loop app field options db"
  by (induction options arbitrary: db) (simp_all split: prod.splits option.splits)

lemma range_writes_update_choice_options:
  "update_choice_options
     (app\<lparr>RangeService_create := rc, FieldRangeService_create := lc,
          FieldRangeService_update := lu, FieldRangeService_delete := ld\<rparr>)
     field added_choice_options removed_choice_options db
   = update_choice_options app field added_choice_options removed_choice_options db"
  by (simp add: update_choice_options_def range_writes_added_choice_options_loop
        range_writes_removed_choice_options_loop split: prod.splits sum.splits)

lemma range_writes_update_text_or_number_field:
  "update_text_or_number_field
     (app\<lparr>RangeService_create := rc, FieldRangeService_create := lc,
          FieldRangeService_update := lu, FieldRangeService_delete := ld\<rparr>)
     field_id name None None False is_strict db
   = update_text_or_number_field app field_id name None None False is_strict db"
  by (simp add: update_text_or_number_field_def update_text_or_number_field_body_def
        range_writes_FieldService_update range_writes_merge_additional_options
        update_range_branch_skip transaction_decorator_def split: prod.splits sum.splits)

lemma range_writes_update_checkbox_field:
  "update_checkbox_field
     (app\<lparr>RangeService_create := rc, FieldRangeService_create := lc,
          FieldRangeService_update := lu, FieldRangeService_delete := ld\<rparr>)
     field_id name None None False added_choice_options removed_choice_options db
   = update_checkbox_field app field_id name None None False
       added_choice_options removed_choice_options db"
  by (simp add: update_checkbox_field_def update_checkbox_field_body_def
        range_writes_FieldService_update range_writes_merge_additional_options
        range_writes_update_choice_options update_range_branch_skip transaction_decorator_def
        split: prod.splits sum.splits)

text \<open>
  C7. With \<^verbatim>\<open>delete_range\<close> false and both bounds absent the range branch does nothing:
  it returns in the state it was entered with, whatever the stores are. The whole call
  of \<^verbatim>\<open>update_text_or_number_field\<close> or \<^verbatim>\<open>update_checkbox_field\<close> then uses none of
  \<^verbatim>\<open>RangeService.create\<close>, \<^verbatim>\<open>FieldRangeService.create\<close>, \<^verbatim>\<open>FieldRangeService.update\<close> and
  \<^verbatim>\<open>FieldRangeService.delete\<close> (no Range is created, the link is neither created,
  updated nor deleted), and whatever the write of the base field (and, for the checkbox,
  the writes of the choice options) leave unchanged, such as the existing link and the
  bounds of its Range, the call leaves unchanged.
\<close>

theorem update_without_bounds_keeps_range:
  "update_range_branch app field field_range None None False db = (Inr (), db)
   \<and> update_text_or_number_field
         (app\<lparr>RangeService_create := rc, FieldRangeService_create := lc,
              FieldRangeService_update := lu, FieldRangeService_delete := ld\<rparr>)
         field_id name None None False is_strict db
       = update_text_or_number_field app field_id name None None False is_strict db
   \<and> update_checkbox_field
         (app\<lparr>RangeService_create := rc, FieldRangeService_create := lc,
              FieldRangeService_update := lu, FieldRangeService_delete := ld\<rparr>)
         field_id name None None False added_choice_options removed_choice_options db
       = update_checkbox_field app field_id name None None False
           added_choice_options removed_choice_options db
   \<and> ((\<forall>instance d. obs (session_merge_Field app instance d) = obs d) \<longrightarrow>
        obs (snd (update_text_or_number_field app field_id name None None False is_strict db))
          = obs db)
   \<and> ((\<forall>instance d. obs (session_merge_Field app instance d) = obs d)
        \<and> (\<forall>fid t d. obs (snd (ChoiceOptionService_create app fid t d)) = obs d)
        \<and> (\<forall>oid d. obs (snd (ChoiceOptionService_delete app oid d)) = obs d) \<longrightarrow>
        obs (snd (update_checkbox_field app field_id name None None False
                    added_choice_options removed_choice_options db)) = obs db)"
  by (simp add: update_range_branch_skip update_text_or_number_field_frame
        update_checkbox_field_frame range_writes_update_text_or_number_field
        range_writes_update_checkbox_field)

lemma mem_merge_keeps_ranges:
  "(\<lambda>d. (field_range_table d, range_table d)) (session_merge_Field mem_app instance d)
     = (\<lambda>d. (field_range_table d, range_table d)) d"
  by (simp add: mem_app_def)

lemma mem_option_create_keeps_ranges:
  "(\<lambda>d. (field_range_table d, range_table d)) (snd (ChoiceOptionService_create mem_app fid t d))
     = (\<lambda>d. (field_range_table d, range_table d)) d"
  by (simp add: mem_app_def mem_choice_option_create_def Let_def)

lemma mem_option_delete_keeps_ranges:
  "(\<lambda>d. (field_range_table d, range_table d)) (snd (ChoiceOptionService_delete mem_app oid d))
     = (\<lambda>d. (field_range_table d, range_table d)) d"
  by (simp add: mem_app_def mem_choice_option_delete_def split: option.splits)


theorem update_without_bounds_keeps_range_witness:
  "field_range_table (snd (update_text_or_number_field mem_app 1 (Some ''years'') None None
                              False (Some True) ranged_db)) = field_range_table ranged_db
   \<and> range_table (snd (update_text_or_number_field mem_app 1 (Some ''years'') None None
                              False (Some True) ranged_db)) = range_table ranged_db
   \<and> field_range_table (snd (update_checkbox_field mem_app 1 (Some ''choose'') None None
                              False (Some [''b'']) (Some [''a'']) checkbox_db))
       = field_range_table checkbox_db
   \<and> range_table (snd (update_checkbox_field mem_app 1 (Some ''choose'') None None
                              False (Some [''b'']) (Some [''a'']) checkbox_db))
       = range_table checkbox_db"
  using update_without_bounds_keeps_range
    [where app = mem_app and obs = "\<lambda>d. (field_range_table d, range_table d)"
       and field_id = 1 and name = "Some ''years''" and is_strict = "Some True"
       and db = ranged_db]
    update_without_bounds_keeps_range
    [where app = mem_app and obs = "\<lambda>d. (field_range_table d, range_table d)"
       and field_id = 1 and name = "Some ''choose''" and added_choice_options = "Some [''b'']"
       and removed_choice_options = "Some [''a'']" and db = checkbox_db]
    mem_merge_keeps_ranges mem_option_create_keeps_ranges mem_option_delete_keeps_ranges
  by simp

subsection \<open>The additional options\<close>

lemma get_choice_additional_options_empty:
  "ChoiceOptionService_filter app field_id db = [] \<Longrightarrow>
   get_choice_additional_options app field_id db = Inl FieldNotExist"
  by (simp add: get_choice_additional_options_def)

lemma get_additional_options_not_FieldNotExist:
  "get_additional_options app field_id field_type db \<noteq> Inl FieldNotExist"
  by (simp add: get_additional_options_def split: sum.splits error.splits)

lemma FieldType_value_inj_simps:
  "inj (FieldType_value app) \<Longrightarrow> (FieldType_value app a = FieldType_value app b) = (a = b)"
  by (auto dest: injD)

lemma get_additional_options_choice_empty:
  assumes "inj (FieldType_value app)"
    and "field_type = FieldType_value app Radio \<or> field_type = FieldType_value app Checkbox"
    and "ChoiceOptionService_filter app field_id db = []"
  shows "get_additional_options app field_id field_type db = Inr None"
proof -
  have "get_additional_options_try app field_id field_type db = Inl FieldNotExist"
    using assms(2)
    by (auto simp: get_additional_options_try_def FieldType_value_inj_simps [OF assms(1)]
          get_choice_additional_options_empty [OF assms(3)])
  then show ?thesis by (simp add: get_additional_options_def)
qed

lemma inj_mem_FieldType_value: "inj mem_FieldType_value"
proof (rule injI)
  fix x y
  assume "mem_FieldType_value x = mem_FieldType_value y"
  then show "x = y" by (cases x; cases y) simp_all
qed

text \<open>
  C4. \<^verbatim>\<open>get_additional_options\<close> never propagates \<^verbatim>\<open>FieldNotExist\<close>. For a field type
  that is the value of \<^verbatim>\<open>Radio\<close> or \<^verbatim>\<open>Checkbox\<close> (the members of the enumeration having
  distinct values) and a field with no \<^verbatim>\<open>ChoiceOption\<close> rows, the helper raises
  \<^verbatim>\<open>FieldNotExist\<close>, which is caught, and the call returns \<^verbatim>\<open>None\<close>.
\<close>

theorem get_additional_options_catches_FieldNotExist:
  "get_additional_options app field_id field_type db \<noteq> Inl FieldNotExist
   \<and> (inj (FieldType_value app)
        \<and> (field_type = FieldType_value app Radio \<or> field_type = FieldType_value app Checkbox)
        \<and> ChoiceOptionService_filter app field_id db = [] \<longrightarrow>
      get_choice_additional_options app field_id db = Inl FieldNotExist
      \<and> get_additional_options app field_id field_type db = Inr None)"
proof (intro conjI impI)
  show "get_additional_options app field_id field_type db \<noteq> Inl FieldNotExist"
    by (rule get_additional_options_not_FieldNotExist)
next
  assume h: "inj (FieldType_value app)
        \<and> (field_type = FieldType_value app Radio \<or> field_type = FieldType_value app Checkbox)
        \<and> ChoiceOptionService_filter app field_id db = []"
  then show "get_choice_additional_options app field_id db = Inl FieldNotExist"
    by (simp add: get_choice_additional_options_empty)
  from h show "get_additional_options app field_id field_type db = Inr None"
    by (intro get_additional_options_choice_empty) simp_all
qed

theorem get_additional_options_catches_FieldNotExist_witness:
  "get_choice_additional_options mem_app 1 (one_field_db ''color'' 4) = Inl FieldNotExist
   \<and> get_additional_options mem_app 1 4 (one_field_db ''color'' 4) = Inr None
   \<and> get_additional_options mem_app 1 6 (one_field_db ''pick'' 6) = Inr None"
  using get_additional_options_catches_FieldNotExist [of mem_app 1 4 "one_field_db ''color'' 4"]
    get_additional_options_catches_FieldNotExist [of mem_app 1 6 "one_field_db ''pick'' 6"]
    inj_mem_FieldType_value
  by (simp add: mem_app_def one_field_db_def empty_db_def)

text \<open>
  C10. For a \<^verbatim>\<open>field_type\<close> that is the value of none of the six members of
  \<^verbatim>\<open>FieldType\<close>, no branch of the \<^verbatim>\<open>try\<close> block is taken: \<^verbatim>\<open>get_additional_options\<close>
  returns \<^verbatim>\<open>None\<close> without raising, for every field id, every store state and every
  behaviour of the stores, none of which it consults.
\<close>

theorem get_additional_options_unrecognized_type:
  assumes "\<forall>t. field_type \<noteq> FieldType_value app t"
  shows "get_additional_options_try app field_id field_type db = Inr None
       \<and> get_additional_options app field_id field_type db = Inr None"
  using assms by (simp add: get_additional_options_def get_additional_options_try_def)

lemma mem_FieldType_value_range: "1 \<le> mem_FieldType_value t \<and> mem_FieldType_value t \<le> 6"
  by (cases t) simp_all

theorem get_additional_options_unrecognized_type_witness:
  "get_additional_options mem_app 1 7 (one_field_db ''t'' 7) = Inr None
   \<and> get_additional_options mem_app 5 0 empty_db = Inr None"
proof -
  have "(7::int) \<noteq> FieldType_value mem_app t" and "(0::int) \<noteq> FieldType_value mem_app t"
    for t
    using mem_FieldType_value_range [of t] by (simp_all add: mem_app_def)
  then show ?thesis
    using get_additional_options_unrecognized_type [of 7 mem_app 1 "one_field_db ''t'' 7"]
      get_additional_options_unrecognized_type [of 0 mem_app 5 empty_db]
    by simp
qed

subsection \<open>Merging the additional options\<close>

lemma merge_additional_options_None:
  "get_additional_options app (Field_id field) (Field_field_type field) db = Inr None \<Longrightarrow>
   merge_additional_options app field data db = (Inl TypeError, db)"
  by (simp add: merge_additional_options_def dict_update_def)

lemma mem_remove_every_option_body:
  "update_checkbox_field_body mem_app 1 None None None False None (Some [''a'']) checkbox_db
     = (Inl TypeError, checkbox_db\<lparr>choice_option_table := []\<rparr>)"
  by code_simp


text \<open>
  C8. The merge that ends the updates is not guarded: whenever \<^verbatim>\<open>get_additional_options\<close>
  answers \<^verbatim>\<open>None\<close>, \<^verbatim>\<open>data.update(None)\<close> raises \<^verbatim>\<open>TypeError\<close>. That happens in
  \<^verbatim>\<open>update_checkbox_field\<close> when \<^verbatim>\<open>removed_choice_options\<close> removes the only option of
  the field, and in \<^verbatim>\<open>update_text_or_number_field\<close> on a field whose stored type is
  Radio and that has no options.
\<close>

theorem update_merge_of_none:
  "(get_additional_options app (Field_id field) (Field_field_type field) db = Inr None \<longrightarrow>
      merge_additional_options app field data db = (Inl TypeError, db))
   \<and> get_additional_options mem_app 1 6 (checkbox_db\<lparr>choice_option_table := []\<rparr>) = Inr None
   \<and> update_checkbox_field_body mem_app 1 None None None False None (Some [''a'']) checkbox_db
       = (Inl TypeError, checkbox_db\<lparr>choice_option_table := []\<rparr>)
   \<and> update_checkbox_field mem_app 1 None None None False None (Some [''a'']) checkbox_db
       = (Inl TypeError, checkbox_db)
   \<and> get_additional_options mem_app 1 4 (one_field_db ''color'' 4) = Inr None
   \<and> update_text_or_number_field mem_app 1 None None None False None (one_field_db ''color'' 4)
       = (Inl TypeError, one_field_db ''color'' 4)"
proof (intro conjI impI)
  show "update_checkbox_field_body mem_app 1 None None None False None (Some [''a'']) checkbox_db
       = (Inl TypeError, checkbox_db\<lparr>choice_option_table := []\<rparr>)"
    by (rule mem_remove_every_option_body)
  then show "update_checkbox_field mem_app 1 None None None False None (Some [''a'']) checkbox_db
       = (Inl TypeError, checkbox_db)"
    unfolding update_checkbox_field_def by (rule transaction_decorator_Inl)
  show "get_additional_options mem_app 1 6 (checkbox_db\<lparr>choice_option_table := []\<rparr>) = Inr None"
    by code_simp
  show "get_additional_options mem_app 1 4 (one_field_db ''color'' 4) = Inr None"
    by code_simp
  show "update_text_or_number_field mem_app 1 None None None False None (one_field_db ''color'' 4)
       = (Inl TypeError, one_field_db ''color'' 4)"
    by code_simp
qed (simp add: merge_additional_options_None)

theorem update_merge_of_none_witness:
  "fst (update_checkbox_field mem_app 1 None None None False None (Some [''a'']) checkbox_db)
     = Inl TypeError
   \<and> fst (update_text_or_number_field mem_app 1 None None None False None
            (one_field_db ''color'' 4)) = Inl TypeError"
  using update_merge_of_none [of mem_app "field_row 1 ''color'' 4" "one_field_db ''color'' 4" "[]"]
  by simp

subsection \<open>Removing choice options\<close>

lemma removed_choice_options_loop_lookup_none:
  "ChoiceOptionService_get_by_field_and_text app (Field_id field) removed_option db = None \<Longrightarrow>
   removed_choice_options_loop app field (removed_option # rest) db = (Inl AttributeError, db)"
  by simp

lemma removed_choice_options_loop_delete_none:
  "ChoiceOptionService_get_by_field_and_text app (Field_id field) removed_option db = Some c \<Longrightarrow>
   ChoiceOptionService_delete app (ChoiceOption_id c) db = (None, db1) \<Longrightarrow>
   removed_choice_options_loop app field (removed_option # rest) db
     = (Inl ChoiceOptionNotDeleted, db1)"
  by simp

text \<open>
  C5. A removed option is looked up by (field id, option text) and deleted by its id, and
  a deletion that answers \<^verbatim>\<open>None\<close> raises \<^verbatim>\<open>ChoiceOptionNotDeleted\<close>. A lookup that
  answers \<^verbatim>\<open>None\<close> does not: the \<^verbatim>\<open>id\<close> of the missing option is read, and
  \<^verbatim>\<open>update_radio_field\<close> and \<^verbatim>\<open>update_checkbox_field\<close> end in \<^verbatim>\<open>AttributeError\<close>.
\<close>

theorem removed_option_lookup_yields_none:
  assumes "FieldService_update app field_id name None None None db = (Inr field, db_upd)"
    and "ChoiceOptionService_get_by_field_and_text app (Field_id field) removed_option db_upd = None"
  shows "update_radio_field app field_id name None (Some (removed_option # rest)) db
           = (Inl AttributeError, db)
       \<and> update_checkbox_field app field_id name None None False None
            (Some (removed_option # rest)) db = (Inl AttributeError, db)"
  using assms
  by (simp add: update_radio_field_def update_radio_field_body_def update_checkbox_field_def
        update_checkbox_field_body_def update_choice_options_def update_range_branch_skip
        transaction_decorator_def)

theorem removed_option_lookup_yields_none_witness:
  "update_radio_field mem_app 1 (Some ''color'') None (Some [''purple''])
       (one_field_db ''color'' 4)
     = (Inl AttributeError, one_field_db ''color'' 4)
   \<and> update_checkbox_field mem_app 1 (Some ''color'') None None False None (Some [''purple''])
       (one_field_db ''color'' 4)
     = (Inl AttributeError, one_field_db ''color'' 4)"
  using removed_option_lookup_yields_none
    [where app = mem_app and field_id = 1 and name = "Some ''color''"
       and db = "one_field_db ''color'' 4" and field = "field_row 1 ''color'' 4"
       and db_upd = "one_field_db ''color'' 4" and removed_option = "''purple''" and rest = "[]"]
  by (simp add: mem_update_name)
     (simp add: mem_app_def one_field_db_def empty_db_def field_row_def)

subsection \<open>Flattening\<close>

lemma lists_to_list_loop_flatten:
  "lists_to_list_loop data values = values @ concat (map flatten_reference data)"
  by (induction data "values" rule: lists_to_list_loop.induct) simp_all

text \<open>
  C9. For every finitely nested list of non-list items, \<^verbatim>\<open>lists_to_list\<close> (called
  without \<^verbatim>\<open>values\<close>) returns the depth-first, left-to-right flattening of the input:
  the flattening of the input taken as one list by the reference recursive flatten.
\<close>

theorem lists_to_list_is_flatten:
  "lists_to_list data None = flatten_reference (PyList data)"
  by (simp add: lists_to_list_def lists_to_list_loop_flatten)

theorem lists_to_list_is_flatten_witness:
  "lists_to_list [PyList [Item (1::int), Item 2], PyList [], PyList [PyList [Item 3], Item 4],
                  Item 5] None = [1, 2, 3, 4, 5]"
  using lists_to_list_is_flatten
    [of "[PyList [Item (1::int), Item 2], PyList [], PyList [PyList [Item 3], Item 4], Item 5]"]
  by simp

end
